theory Spec2Isabelle
  imports Complex_Main "HOL-Library.Sublist"
begin

section \<open>Data model\<close>

text \<open>
  The conformer pipeline of \<^verbatim>\<open>DBGEN/db_gen_functions.py\<close>. Python floats (energies,
  thresholds, angles, RMSD values) are modelled as reals, Python integers as \<open>int\<close> or
  \<open>nat\<close>. The chemistry engines the code calls (embedding, force field, dihedral setter,
  RMSD, semi-empirical optimizer) are parameters of the model: a geometry is a value of an
  arbitrary type \<open>'g\<close>, a dihedral descriptor a value of an arbitrary type \<open>'m\<close>. A rigid
  motion of a geometry (the in-place alignment done by the RMSD engine) is not a change of
  the geometry in this model. Names of conformers, the charge bookkeeping, the change of
  the atomic number of metal atoms, progress bars and the messages written only when
  \<^verbatim>\<open>args.verbose\<close> is set are left out: no modelled result depends on them.
\<close>

datatype error = SystemExit | UnboundLocalError

datatype ff = MMFF | UFF | OtherFF

datatype program = ani | xtb

datatype log_msg =
    TooManyTorsions nat
  | EmbedRetry int
  | NoRotatableDihedrals program
  | InvalidStructure

text \<open>The options of \<^verbatim>\<open>args\<close> that the modelled functions read. \<open>sample = None\<close> is
  \<^verbatim>\<open>args.sample == 'auto'\<close>.\<close>

record args =
  ff :: ff
  initial_energy_threshold :: real
  energy_threshold :: real
  rms_threshold :: real
  heavyonly :: bool
  degree :: real
  ewin :: real
  opt_steps :: nat
  max_torsions :: int
  nodihedrals :: bool
  sample :: "int option"
  auto_sample :: int
  metal_complex :: bool
  metal_idx :: "nat list"
  seed :: int
  ANI1ccx :: bool
  xTB :: bool

text \<open>The engines:
  \<^item> \<open>ff_minimize family constrained g\<close>: \<^verbatim>\<open>Initialize\<close>, \<^verbatim>\<open>Minimize\<close> and
    \<^verbatim>\<open>CalcEnergy\<close> of the force field of that family on a conformer with geometry \<open>g\<close>
    (\<open>constrained\<close>: the template branch with distance constraints and re-alignment); the
    new geometry of that conformer and its energy;
  \<^item> \<open>set_dihedral_deg g m a\<close>: \<^verbatim>\<open>SetDihedralDeg\<close> (\<^verbatim>\<open>SetDihedralRad\<close> with
    \<open>pi * a / 180\<close>) of dihedral \<open>m\<close> to \<open>a\<close> degrees;
  \<^item> \<open>best_rms heavy probe ref\<close>: \<^verbatim>\<open>GetBestRMS\<close>, after \<^verbatim>\<open>RemoveHs\<close> when \<open>heavy\<close>;
  \<^item> \<open>sqm_run program g\<close>: one BFGS run of the ANI or xTB calculator from geometry \<open>g\<close>:
    the length of the trajectory file the code reads afterwards, the final energy in
    kcal/mol and the final geometry.\<close>

record ('g, 'm) engines =
  ff_minimize :: "ff \<Rightarrow> bool \<Rightarrow> 'g \<Rightarrow> 'g \<times> real"
  set_dihedral_deg :: "'g \<Rightarrow> 'm \<Rightarrow> real \<Rightarrow> 'g"
  best_rms :: "bool \<Rightarrow> 'g \<Rightarrow> 'g \<Rightarrow> real"
  sqm_run :: "program \<Rightarrow> 'g \<Rightarrow> nat \<times> real \<times> 'g"

text \<open>A molecule object with its conformers (by conformer id) and its \<^verbatim>\<open>Energy\<close>
  property; a record of an SDF file: one geometry and the \<^verbatim>\<open>Energy\<close> property.\<close>

record 'g pmol =
  confs :: "'g list"
  Energy :: real

record 'g sdf_record =
  sd_geom :: 'g
  sd_energy :: real

text \<open>One row of the summary table \<^verbatim>\<open>dup_data\<close>; \<open>None\<close> is a cell never written
  (\<^verbatim>\<open>nan\<close> in the CSV file).\<close>

record dup_row =
  Molecule :: "string option"
  RDKIT_Initial_samples :: "int option"
  RDKit_energy_duplicates :: "int option"
  RDKit_RMSD_and_energy_duplicates :: "int option"
  RDKIT_Unique_conformers :: "int option"
  RDKIT_Rotated_conformers :: "int option"
  RDKIT_Rotated_Unique_conformers :: "int option"
  SQM_Initial_samples :: "program \<Rightarrow> int option"
  SQM_initial_energy_threshold :: "program \<Rightarrow> int option"
  SQM_RMSD_and_energy_duplicates :: "program \<Rightarrow> int option"
  SQM_Unique_conformers :: "program \<Rightarrow> int option"

definition empty_row :: dup_row where
  "empty_row =
     \<lparr>Molecule = None, RDKIT_Initial_samples = None, RDKit_energy_duplicates = None,
      RDKit_RMSD_and_energy_duplicates = None, RDKIT_Unique_conformers = None,
      RDKIT_Rotated_conformers = None, RDKIT_Rotated_Unique_conformers = None,
      SQM_Initial_samples = (\<lambda>_. None), SQM_initial_energy_threshold = (\<lambda>_. None),
      SQM_RMSD_and_energy_duplicates = (\<lambda>_. None), SQM_Unique_conformers = (\<lambda>_. None)\<rparr>"

section \<open>Sampler: \<^verbatim>\<open>auto_sampling\<close>\<close>

text \<open>The three descriptor counts that \<^verbatim>\<open>auto_sampling\<close> reads from the molecule
  (\<^verbatim>\<open>Lipinski.NumRotatableBonds\<close>, \<^verbatim>\<open>NHOHCount\<close>, \<^verbatim>\<open>NumSaturatedRings\<close>).\<close>

record descriptors =
  NumRotatableBonds :: nat
  NHOHCount :: nat
  NumSaturatedRings :: nat

definition auto_sampling :: "int \<Rightarrow> descriptors \<Rightarrow> args \<Rightarrow> int" where
  "auto_sampling mult_factor mol args =
     (let mult_factor =
            (if metal_complex args then
               (if length (metal_idx args) > 0
                then mult_factor * 3 * int (length (metal_idx args)) else mult_factor)
             else mult_factor);
          auto_samples = 0;
          auto_samples = auto_samples + 3 * int (NumRotatableBonds mol);
          auto_samples = auto_samples + 3 * int (NHOHCount mol);
          auto_samples = auto_samples + 3 * int (NumSaturatedRings mol)
      in if auto_samples = 0 then mult_factor else mult_factor * auto_samples)"

text \<open>The contract of the sampler in the words of the specification (section 4.1), to be
  compared with \<open>auto_sampling\<close>.\<close>

definition spec_estimate_initial_samples ::
  "nat \<Rightarrow> nat \<Rightarrow> nat \<Rightarrow> bool \<Rightarrow> nat \<Rightarrow> int \<Rightarrow> int" where
  "spec_estimate_initial_samples rotatable_bonds polar_H_donor_count saturated_ring_count
       is_metal_complex metal_center_count multiplier =
     (let multiplier =
            (if is_metal_complex \<and> metal_center_count \<ge> 1
             then multiplier * (3 * int metal_center_count) else multiplier);
          raw = 3 * int rotatable_bonds + 3 * int polar_H_donor_count
                + 3 * int saturated_ring_count
      in if raw = 0 then multiplier else multiplier * raw)"

section \<open>Embedding adapter: \<^verbatim>\<open>embed_conf\<close>\<close>

text \<open>One call of \<^verbatim>\<open>rdDistGeom.EmbedMultipleConfs\<close> with the keyword arguments that differ
  between the calls of \<^verbatim>\<open>embed_conf\<close>. The engine stores the conformers in the molecule and
  returns their ids \<open>0, 1, \<dots>\<close>; the model takes the list of embedded geometries, whose
  positions are the ids.\<close>

record 'cm embed_call =
  numConfs :: int
  randomSeed :: int
  useRandomCoords :: bool
  boxSizeMult :: "real option"
  numZeroFail :: "nat option"
  coordMap :: "'cm option"

text \<open>The result: the embedded conformers, the engine calls made (in order), the log.\<close>

definition embed_conf ::
  "('cm embed_call \<Rightarrow> 'g list) \<Rightarrow> int \<Rightarrow> args \<Rightarrow> log_msg list
     \<Rightarrow> 'cm option \<Rightarrow> 'am option \<Rightarrow> 'tm option
     \<Rightarrow> 'g list \<times> 'cm embed_call list \<times> log_msg list" where
  "embed_conf EmbedMultipleConfs initial_confs args lg coord_Map alg_Map mol_template =
     (if coord_Map = None \<and> alg_Map = None \<and> mol_template = None then
        (let call1 = \<lparr>numConfs = initial_confs, randomSeed = seed args,
                       useRandomCoords = False, boxSizeMult = None, numZeroFail = None,
                       coordMap = None\<rparr>;
             cids = EmbedMultipleConfs call1
         in if length cids = 0 \<or> (length cids = 1 \<and> initial_confs \<noteq> 1) then
              (let call2 = \<lparr>numConfs = initial_confs, randomSeed = seed args,
                             useRandomCoords = True, boxSizeMult = Some 10,
                             numZeroFail = Some 1000, coordMap = None\<rparr>
               in (EmbedMultipleConfs call2, [call1, call2], lg @ [EmbedRetry initial_confs]))
            else (cids, [call1], lg))
      else
        (let call1 = \<lparr>numConfs = initial_confs, randomSeed = seed args,
                       useRandomCoords = False, boxSizeMult = None, numZeroFail = None,
                       coordMap = coord_Map\<rparr>;
             cids = EmbedMultipleConfs call1
         in if length cids = 0 \<or> (length cids = 1 \<and> initial_confs \<noteq> 1) then
              (let call2 = \<lparr>numConfs = initial_confs, randomSeed = seed args,
                             useRandomCoords = True, boxSizeMult = Some 10,
                             numZeroFail = Some 1000, coordMap = coord_Map\<rparr>
               in (EmbedMultipleConfs call2, [call1, call2], lg @ [EmbedRetry initial_confs]))
            else (cids, [call1], lg)))"

section \<open>RMSD: \<^verbatim>\<open>get_conf_RMS\<close>\<close>

definition get_conf_RMS :: "('g, 'm) engines \<Rightarrow> 'g \<Rightarrow> 'g \<Rightarrow> bool \<Rightarrow> real" where
  "get_conf_RMS E probe ref heavy = best_rms E heavy probe ref"

section \<open>Torsion enumerator: \<^verbatim>\<open>genConformer_r\<close>\<close>

text \<open>The loop \<^verbatim>\<open>while deg < 360.0: ...; total += ...; deg += degree\<close>. It does not return
  when \<open>degree \<le> 0\<close>: the result \<open>None\<close>. \<open>body deg s\<close> is one pass of the loop body on
  state \<open>s\<close>: the count it adds to \<^verbatim>\<open>total\<close> and the new state, or an error.\<close>

partial_function (option) deg_loop ::
  "(real \<Rightarrow> 's \<Rightarrow> (error + nat \<times> 's) option) \<Rightarrow> real \<Rightarrow> real \<Rightarrow> nat \<Rightarrow> 's
     \<Rightarrow> (error + nat \<times> 's) option" where
  "deg_loop body degree_step deg tot s =
     (if deg < 360 then
        (case body deg s of
           None \<Rightarrow> None
         | Some (Inl e) \<Rightarrow> Some (Inl e)
         | Some (Inr (n, s')) \<Rightarrow> deg_loop body degree_step (deg + degree_step) (tot + n) s')
      else Some (Inr (tot, s)))"

lemma deg_loop_cong [fundef_cong]:
  "(\<And>d s. body d s = body' d s) \<Longrightarrow> degree_step = degree_step' \<Longrightarrow> deg = deg'
    \<Longrightarrow> tot = tot' \<Longrightarrow> s = s'
    \<Longrightarrow> deg_loop body degree_step deg tot s = deg_loop body' degree_step' deg' tot' s'"
proof -
  assume "\<And>d s. body d s = body' d s"
  then have "body = body'" by (intro ext)
  moreover assume "degree_step = degree_step'" "deg = deg'" "tot = tot'" "s = s'"
  ultimately show ?thesis by simp
qed

text \<open>\<^verbatim>\<open>genConformer_r(mol, conf, i, matches, degree, sdwriter, args, ...)\<close>: the molecule
  object and the writer are mutated by the source and returned here with the count. The
  writer receives conformer \<open>conf\<close> of \<open>mol\<close> with the molecule's \<^verbatim>\<open>Energy\<close> property.\<close>

function genConformer_r ::
  "('g, 'm) engines \<Rightarrow> args \<Rightarrow> 'g pmol \<Rightarrow> nat \<Rightarrow> nat \<Rightarrow> 'm list \<Rightarrow> real \<Rightarrow> 'g sdf_record list
     \<Rightarrow> (error + nat \<times> 'g pmol \<times> 'g sdf_record list) option" where
  "genConformer_r E args mol conf i matches degree_step sdwriter =
     (if i \<ge> length matches then
        Some (Inr (1, mol, sdwriter @ [\<lparr>sd_geom = confs mol ! conf, sd_energy = Energy mol\<rparr>]))
      else
        deg_loop
          (\<lambda>deg (mol, sdwriter).
             let mol = mol\<lparr>confs :=
                     (confs mol)[conf := set_dihedral_deg E (confs mol ! conf) (matches ! i) deg]\<rparr>
             in if ff args = MMFF \<or> ff args = UFF then
                  (let (g, energy) = ff_minimize E (ff args) False (confs mol ! conf);
                       mol = mol\<lparr>confs := (confs mol)[conf := g], Energy := energy\<rparr>
                   in genConformer_r E args mol conf (i + 1) matches degree_step sdwriter)
                else Some (Inl SystemExit))
          degree_step 0 0 (mol, sdwriter))"
  by pat_completeness auto
termination
  by (relation "measure (\<lambda>(E, args, mol, conf, i, matches, degree_step, sdwriter).
        length matches - i)") auto

declare genConformer_r.simps [simp del]

text \<open>The grid of the specification (section 4.5): the angles \<open>0, d, 2d, \<dots>\<close> below 360,
  and a loop over an explicit list of angles, to be compared with \<open>deg_loop\<close>.\<close>

definition spec_grid_angles :: "real \<Rightarrow> real list" where
  "spec_grid_angles degree_step =
     map (\<lambda>k. real k * degree_step) [0 ..< nat \<lceil>360 / degree_step\<rceil>]"


section \<open>Minimization stage: \<^verbatim>\<open>min_after_embed\<close>\<close>

text \<open>The first loop of \<^verbatim>\<open>min_after_embed\<close>: each conformer of \<open>mol\<close> is minimized in
  place, its energy appended to \<^verbatim>\<open>cenergy\<close>, and a copy of the whole molecule object
  (\<^verbatim>\<open>PropertyMol.PropertyMol(mol)\<close>, with all its conformers as they are at that moment)
  appended to \<^verbatim>\<open>outmols\<close>. An unsupported force field exits the process.\<close>

fun minimize_loop ::
  "('g, 'm) engines \<Rightarrow> args \<Rightarrow> bool \<Rightarrow> nat list \<Rightarrow> 'g list \<Rightarrow> real list \<Rightarrow> 'g list list
     \<Rightarrow> error + 'g list \<times> real list \<times> 'g list list" where
  "minimize_loop E args template [] mol cenergy outmols = Inr (mol, cenergy, outmols)"
| "minimize_loop E args template (conf # cids) mol cenergy outmols =
     (if ff args = MMFF \<or> ff args = UFF then
        (let (g, energy) = ff_minimize E (ff args) template (mol ! conf);
             mol = mol[conf := g]
         in minimize_loop E args template cids mol (cenergy @ [energy]) (outmols @ [mol]))
      else Inl SystemExit)"

text \<open>\<^verbatim>\<open>sorted(cids, key = lambda cid: cenergy[cid])\<close> with
  \<^verbatim>\<open>cids = list(range(len(outmols)))\<close>; Python's sort is stable, as \<open>sort_key\<close> is.\<close>

definition sortedcids :: "real list \<Rightarrow> nat list" where
  "sortedcids cenergy = sort_key (\<lambda>cid. cenergy ! cid) [0 ..< length cenergy]"

text \<open>Stage A, the energy pre-filter: one pass of the loop body for the \<open>i\<close>-th conformer
  \<open>conf\<close> of \<^verbatim>\<open>sortedcids\<close>, on \<^verbatim>\<open>(selectedcids_initial, eng_dup)\<close>. The inner loop stops at
  the first seen conformer within the threshold.\<close>

definition prefilter_step ::
  "args \<Rightarrow> real list \<Rightarrow> nat list \<times> int \<Rightarrow> nat \<times> nat \<Rightarrow> nat list \<times> int" where
  "prefilter_step args cenergy st ic =
     (let (selectedcids_initial, eng_dup) = st;
          (i, conf) = ic;
          selectedcids_initial =
            (if i = 0 then selectedcids_initial @ [conf] else selectedcids_initial);
          excluded_conf =
            list_ex (\<lambda>seenconf. \<bar>cenergy ! conf - cenergy ! seenconf\<bar>
                                  < initial_energy_threshold args) selectedcids_initial;
          eng_dup = (if excluded_conf then eng_dup + 1 else eng_dup);
          selectedcids_initial =
            (if \<not> excluded_conf \<and> conf \<notin> set selectedcids_initial
             then selectedcids_initial @ [conf] else selectedcids_initial)
      in (selectedcids_initial, eng_dup))"

definition prefilter :: "args \<Rightarrow> real list \<Rightarrow> nat list \<Rightarrow> nat list \<times> int" where
  "prefilter args cenergy sorted_cids =
     fold (\<lambda>ic st. prefilter_step args cenergy st ic) (enumerate 0 sorted_cids) ([], - 1)"

text \<open>Stage B, the energy and RMSD filter: one pass of the loop body for the \<open>i\<close>-th
  conformer \<open>conf\<close> of \<^verbatim>\<open>selectedcids_initial\<close>, on
  \<^verbatim>\<open>(outmols, selectedcids, eng_rms_dup)\<close>. The dihedrals of conformer \<open>conf\<close> of
  \<^verbatim>\<open>outmols[conf]\<close> are set to 180 degrees; the RMSD is taken inside \<^verbatim>\<open>outmols[conf]\<close>,
  between its conformers \<open>seenconf\<close> (probe) and \<open>conf\<close> (reference).\<close>

definition rms_filter_step ::
  "('g, 'm) engines \<Rightarrow> args \<Rightarrow> 'm list \<Rightarrow> real list
     \<Rightarrow> 'g pmol list \<times> nat list \<times> int \<Rightarrow> nat \<times> nat \<Rightarrow> 'g pmol list \<times> nat list \<times> int" where
  "rms_filter_step E args rotmatches cenergy st ic =
     (let (outmols, selectedcids, eng_rms_dup) = st;
          (i, conf) = ic;
          outmols = outmols[conf := (outmols ! conf)\<lparr>confs :=
              (confs (outmols ! conf))[conf :=
                 fold (\<lambda>m g. set_dihedral_deg E g m 180) rotmatches
                   (confs (outmols ! conf) ! conf)]\<rparr>];
          selectedcids = (if i = 0 then selectedcids @ [conf] else selectedcids);
          excluded_conf =
            list_ex (\<lambda>seenconf.
                \<bar>cenergy ! conf - cenergy ! seenconf\<bar> < energy_threshold args
                \<and> get_conf_RMS E (confs (outmols ! conf) ! seenconf)
                      (confs (outmols ! conf) ! conf) (heavyonly args)
                    < rms_threshold args) selectedcids;
          eng_rms_dup = (if excluded_conf then eng_rms_dup + 1 else eng_rms_dup);
          selectedcids =
            (if \<not> excluded_conf \<and> conf \<notin> set selectedcids
             then selectedcids @ [conf] else selectedcids)
      in (outmols, selectedcids, eng_rms_dup))"

definition rms_filter ::
  "('g, 'm) engines \<Rightarrow> args \<Rightarrow> 'm list \<Rightarrow> real list \<Rightarrow> 'g pmol list \<Rightarrow> nat list
     \<Rightarrow> 'g pmol list \<times> nat list \<times> int" where
  "rms_filter E args rotmatches cenergy outmols selectedcids_initial =
     fold (\<lambda>ic st. rms_filter_step E args rotmatches cenergy st ic)
       (enumerate 0 selectedcids_initial) (outmols, [], - 1)"

text \<open>The last loop: \<^verbatim>\<open>total += genConformer_r(outmols[conf], conf, 0, rotmatches, ...)\<close>
  for every selected conformer.\<close>

fun drive_torsions ::
  "('g, 'm) engines \<Rightarrow> args \<Rightarrow> 'm list \<Rightarrow> nat list \<Rightarrow> nat \<Rightarrow> 'g pmol list
     \<Rightarrow> 'g sdf_record list \<Rightarrow> (error + nat \<times> 'g pmol list \<times> 'g sdf_record list) option" where
  "drive_torsions E args rotmatches [] tot outmols sdwriter = Some (Inr (tot, outmols, sdwriter))"
| "drive_torsions E args rotmatches (conf # selectedcids) tot outmols sdwriter =
     (case genConformer_r E args (outmols ! conf) conf 0 rotmatches (degree args) sdwriter of
        None \<Rightarrow> None
      | Some (Inl e) \<Rightarrow> Some (Inl e)
      | Some (Inr (n, mol, sdwriter)) \<Rightarrow>
          drive_torsions E args rotmatches selectedcids (tot + n) (outmols[conf := mol]) sdwriter)"

text \<open>What \<^verbatim>\<open>min_after_embed\<close> leaves behind: its status, the row of the summary table, the
  writer, and (for the statements below) the ids it selected.\<close>

record 'g mae_result =
  mae_status :: int
  mae_row :: dup_row
  mae_sdwriter :: "'g sdf_record list"
  mae_selectedcids :: "nat list"

text \<open>The part of \<^verbatim>\<open>min_after_embed\<close> up to the end of Stage B: the energies, the molecule
  objects with their \<^verbatim>\<open>Energy\<close> property set, the survivors of Stage A with
  \<^verbatim>\<open>eng_dup\<close>, the selected ids with \<^verbatim>\<open>eng_rms_dup\<close>. \<open>mol\<close> is the list of embedded
  conformers: \<^verbatim>\<open>cids\<close> is the list of their positions.\<close>

definition mae_filters ::
  "('g, 'm) engines \<Rightarrow> args \<Rightarrow> bool \<Rightarrow> 'g list \<Rightarrow> 'm list
     \<Rightarrow> error + real list \<times> 'g pmol list \<times> (nat list \<times> int) \<times> (nat list \<times> int)" where
  "mae_filters E args template mol rotmatches =
     (case minimize_loop E args template [0 ..< length mol] mol [] [] of
        Inl e \<Rightarrow> Inl e
      | Inr (mol, cenergy, outmols) \<Rightarrow>
          (let outmols = map (\<lambda>cid. \<lparr>confs = outmols ! cid, Energy = cenergy ! cid\<rparr>)
                           [0 ..< length outmols];
               (selectedcids_initial, eng_dup) = prefilter args cenergy (sortedcids cenergy);
               (outmols, selectedcids, eng_rms_dup) =
                  rms_filter E args rotmatches cenergy outmols selectedcids_initial
           in Inr (cenergy, outmols, (selectedcids_initial, eng_dup),
                   (selectedcids, eng_rms_dup))))"

definition min_after_embed ::
  "('g, 'm) engines \<Rightarrow> args \<Rightarrow> bool \<Rightarrow> 'g list \<Rightarrow> 'm list \<Rightarrow> dup_row \<Rightarrow> 'g sdf_record list
     \<Rightarrow> (error + 'g mae_result) option" where
  "min_after_embed E args template mol rotmatches dup_data sdwriter =
     (case mae_filters E args template mol rotmatches of
        Inl e \<Rightarrow> Some (Inl e)
      | Inr (cenergy, outmols, (selectedcids_initial, eng_dup), (selectedcids, eng_rms_dup)) \<Rightarrow>
          (let dup_data = dup_data\<lparr>RDKit_energy_duplicates := Some eng_dup,
                 RDKit_RMSD_and_energy_duplicates := Some eng_rms_dup,
                 RDKIT_Unique_conformers := Some (int (length selectedcids))\<rparr>
           in case drive_torsions E args rotmatches selectedcids 0 outmols sdwriter of
                None \<Rightarrow> None
              | Some (Inl e) \<Rightarrow> Some (Inl e)
              | Some (Inr (tot, outmols, sdwriter)) \<Rightarrow>
                  Some (Inr \<lparr>mae_status = 1,
                     mae_row = dup_data\<lparr>RDKIT_Rotated_conformers := Some (int tot)\<rparr>,
                     mae_sdwriter = sdwriter, mae_selectedcids = selectedcids\<rparr>)))"

section \<open>Post-rotation filter: \<^verbatim>\<open>filter_after_rotation\<close>\<close>

datatype verdict = Unique | EnergyDup | RmsDup

text \<open>The inner loop of \<^verbatim>\<open>filter_after_rotation\<close> and of \<^verbatim>\<open>mult_min\<close>: the candidate
  (energy \<open>e\<close>, geometry \<open>g\<close>) against the accepted conformers in order, up to the first
  \<^verbatim>\<open>break\<close>.\<close>

fun compare_accepted ::
  "('g, 'm) engines \<Rightarrow> args \<Rightarrow> real \<Rightarrow> 'g \<Rightarrow> (real \<times> 'g) list \<Rightarrow> verdict" where
  "compare_accepted E args e g [] = Unique"
| "compare_accepted E args e g ((ej, gj) # seen) =
     (if \<bar>e - ej\<bar> < initial_energy_threshold args then EnergyDup
      else if \<bar>e - ej\<bar> < energy_threshold args
              \<and> get_conf_RMS E g gj (heavyonly args) < rms_threshold args then RmsDup
      else compare_accepted E args e g seen)"

text \<open>The state of the loop of \<^verbatim>\<open>filter_after_rotation\<close>. A molecule object of the input
  file is known by its position in the file: \<^verbatim>\<open>rd_mol_i not in rd_selectedcids\<close> compares
  objects, not values.\<close>

record 'g far_state =
  rd_count :: nat
  rd_selectedcids :: "(nat \<times> 'g sdf_record) list"
  rd_dup_energy :: int
  rd_dup_rms_eng :: int
  sdwriter_rd :: "'g sdf_record list"

abbreviation far_init :: "'g far_state" where
  "far_init \<equiv> \<lparr>rd_count = 0, rd_selectedcids = [], rd_dup_energy = - 1, rd_dup_rms_eng = 0,
                sdwriter_rd = []\<rparr>"

definition far_step ::
  "('g, 'm) engines \<Rightarrow> args \<Rightarrow> 'g far_state \<Rightarrow> nat \<times> 'g sdf_record \<Rightarrow> 'g far_state" where
  "far_step E args st imol =
     (let (i, rd_mol_i) = imol;
          mol_rd = rd_mol_i;
          st = (if rd_count st = 0
                then st\<lparr>rd_selectedcids := rd_selectedcids st @ [(i, rd_mol_i)],
                        sdwriter_rd := sdwriter_rd st @ [mol_rd]\<rparr>
                else st);
          st = st\<lparr>rd_count := 1\<rparr>
      in case compare_accepted E args (sd_energy rd_mol_i) (sd_geom mol_rd)
                (map (\<lambda>(j, rd_mol_j). (sd_energy rd_mol_j, sd_geom rd_mol_j))
                     (rd_selectedcids st)) of
           EnergyDup \<Rightarrow> st\<lparr>rd_dup_energy := rd_dup_energy st + 1\<rparr>
         | RmsDup \<Rightarrow> st\<lparr>rd_dup_rms_eng := rd_dup_rms_eng st + 1\<rparr>
         | Unique \<Rightarrow>
             (if i \<notin> set (map fst (rd_selectedcids st))
              then st\<lparr>rd_selectedcids := rd_selectedcids st @ [(i, rd_mol_i)],
                      sdwriter_rd := sdwriter_rd st @ [mol_rd]\<rparr>
              else st))"

definition far_loop ::
  "('g, 'm) engines \<Rightarrow> args \<Rightarrow> 'g sdf_record list \<Rightarrow> 'g far_state" where
  "far_loop E args rdmols =
     fold (\<lambda>imol st. far_step E args st imol) (enumerate 0 rdmols) far_init"

text \<open>\<^verbatim>\<open>filter_after_rotation\<close>: the status, the row and the file of the accepted
  conformers.\<close>

definition filter_after_rotation ::
  "('g, 'm) engines \<Rightarrow> args \<Rightarrow> 'g sdf_record list \<Rightarrow> dup_row
     \<Rightarrow> int \<times> dup_row \<times> 'g sdf_record list" where
  "filter_after_rotation E args rdmols dup_data =
     (let st = far_loop E args rdmols
      in (1, dup_data\<lparr>RDKIT_Rotated_Unique_conformers :=
                         Some (int (length (rd_selectedcids st)))\<rparr>, sdwriter_rd st))"

section \<open>Refinement stage: \<^verbatim>\<open>optimize\<close> and \<^verbatim>\<open>mult_min\<close>\<close>

text \<open>\<^verbatim>\<open>optimize\<close>: the local variable \<^verbatim>\<open>converged\<close> is assigned (the value 0) only when
  the trajectory read back is not \<^verbatim>\<open>args.opt_steps + 1\<close> frames long, that is when the
  optimizer stopped before it had used all its steps. Otherwise the return statement reads
  a local variable that was never assigned, and Python raises \<^verbatim>\<open>UnboundLocalError\<close>. The
  result: the new geometry, \<^verbatim>\<open>converged\<close> and the energy.\<close>

definition optimize ::
  "('g, 'm) engines \<Rightarrow> args \<Rightarrow> program \<Rightarrow> 'g \<Rightarrow> error + 'g \<times> int \<times> real" where
  "optimize E args program mol =
     (let (traj_len, sqm_energy, coordinates) = sqm_run E program mol
      in if traj_len \<noteq> opt_steps args + 1 then Inr (coordinates, 0, sqm_energy)
         else Inl UnboundLocalError)"

record 'g mm_state =
  globmin :: "real option"
  n_high :: int
  n_dup_energy :: int
  n_dup_rms_eng :: int
  mm_outmols :: "'g list"
  c_converged :: "int list"
  c_energy :: "real list"

abbreviation mm_init :: "'g mm_state" where
  "mm_init \<equiv> \<lparr>globmin = None, n_high = 0, n_dup_energy = 0, n_dup_rms_eng = 0,
               mm_outmols = [], c_converged = [], c_energy = []\<rparr>"

text \<open>The body of the loop of \<^verbatim>\<open>mult_min\<close> after the call of \<^verbatim>\<open>optimize\<close> has returned
  \<^verbatim>\<open>(mol, converged, energy)\<close>.\<close>

definition mult_min_body ::
  "('g, 'm) engines \<Rightarrow> args \<Rightarrow> 'g mm_state \<Rightarrow> 'g \<times> int \<times> real \<Rightarrow> 'g mm_state" where
  "mult_min_body E args st r =
     (let (mol, converged, energy) = r;
          gm = (case globmin st of None \<Rightarrow> energy | Some gm \<Rightarrow> gm);
          gm = (if energy < gm then energy else gm);
          st = st\<lparr>globmin := Some gm\<rparr>
      in if converged = 0 \<and> \<bar>energy - gm\<bar> < ewin args then
           (case compare_accepted E args energy mol (zip (c_energy st) (mm_outmols st)) of
              EnergyDup \<Rightarrow> st\<lparr>n_dup_energy := n_dup_energy st + 1\<rparr>
            | RmsDup \<Rightarrow> st\<lparr>n_dup_rms_eng := n_dup_rms_eng st + 1\<rparr>
            | Unique \<Rightarrow> st\<lparr>mm_outmols := mm_outmols st @ [mol],
                            c_converged := c_converged st @ [converged],
                            c_energy := c_energy st @ [energy]\<rparr>)
         else st\<lparr>n_high := n_high st + 1\<rparr>)"

text \<open>The loop over the records of the input file, in file order; \<open>None\<close> is a record
  the supplier could not parse (\<^verbatim>\<open>mol is not None\<close>).\<close>

fun mult_min_loop ::
  "('g, 'm) engines \<Rightarrow> args \<Rightarrow> program \<Rightarrow> 'g sdf_record option list \<Rightarrow> 'g mm_state
     \<Rightarrow> error + 'g mm_state" where
  "mult_min_loop E args program [] st = Inr st"
| "mult_min_loop E args program (None # inmols) st = mult_min_loop E args program inmols st"
| "mult_min_loop E args program (Some mol # inmols) st =
     (case optimize E args program (sd_geom mol) of
        Inl e \<Rightarrow> Inl e
      | Inr r \<Rightarrow> mult_min_loop E args program inmols (mult_min_body E args st r))"

text \<open>\<^verbatim>\<open>write_confs\<close>: the conformers in energy order.\<close>

definition write_confs :: "'g list \<Rightarrow> real list \<Rightarrow> 'g sdf_record list" where
  "write_confs conformers energies =
     map (\<lambda>cid. \<lparr>sd_geom = conformers ! cid, sd_energy = energies ! cid\<rparr>)
       (sort_key (\<lambda>cid. energies ! cid) [0 ..< length conformers])"

definition mult_min ::
  "('g, 'm) engines \<Rightarrow> args \<Rightarrow> program \<Rightarrow> 'g sdf_record option list \<Rightarrow> dup_row
     \<Rightarrow> error + dup_row \<times> 'g sdf_record list \<times> 'g mm_state" where
  "mult_min E args program inmols dup_data =
     (case mult_min_loop E args program inmols mm_init of
        Inl e \<Rightarrow> Inl e
      | Inr st \<Rightarrow>
          Inr (dup_data\<lparr>
                 SQM_Initial_samples := (SQM_Initial_samples dup_data)
                    (program := Some (int (length inmols))),
                 SQM_initial_energy_threshold := (SQM_initial_energy_threshold dup_data)
                    (program := Some (n_dup_energy st)),
                 SQM_RMSD_and_energy_duplicates := (SQM_RMSD_and_energy_duplicates dup_data)
                    (program := Some (n_dup_rms_eng st)),
                 SQM_Unique_conformers := (SQM_Unique_conformers dup_data)
                    (program := Some (int (length (mm_outmols st))))\<rparr>,
               write_confs (mm_outmols st) (c_energy st), st))"

section \<open>Orchestration: \<^verbatim>\<open>summ_search\<close> and \<^verbatim>\<open>conformer_generation\<close>\<close>

text \<open>What the orchestration reads of the input molecule: the descriptor counts, the
  result of \<^verbatim>\<open>getDihedralMatches\<close>, whether some atom has an atomic number above 36, and
  the result of \<^verbatim>\<open>filters\<close>.\<close>

record 'm mol_info =
  mol_descriptors :: descriptors
  mol_rotmatches :: "'m list"
  mol_atom_above_Kr :: bool
  mol_valid_structure :: bool

text \<open>What \<^verbatim>\<open>summ_search\<close> leaves behind: the status it returns, the row, the log, the
  engine calls of the embedding, the file \<^verbatim>\<open>name_rdkit.sdf\<close> and the file
  \<^verbatim>\<open>name_rdkit_rotated.sdf\<close> (\<open>None\<close>: never written).\<close>

record ('g, 'cm) ss_result =
  ss_status :: int
  ss_row :: dup_row
  ss_log :: "log_msg list"
  ss_embed_calls :: "'cm embed_call list"
  ss_rdkit_sdf :: "'g sdf_record list"
  ss_rotated_sdf :: "'g sdf_record list option"

definition summ_search ::
  "('g, 'm) engines \<Rightarrow> ('cm embed_call \<Rightarrow> 'g list) \<Rightarrow> 'm mol_info \<Rightarrow> string \<Rightarrow> args
     \<Rightarrow> log_msg list \<Rightarrow> dup_row \<Rightarrow> 'cm option \<Rightarrow> 'am option \<Rightarrow> 'tm option
     \<Rightarrow> (error + ('g, 'cm) ss_result) option" where
  "summ_search E EmbedMultipleConfs mol name args lg dup_data coord_Map alg_Map mol_template =
     (let initial_confs =
            (case sample args of
               None \<Rightarrow> auto_sampling (auto_sample args) (mol_descriptors mol) args
             | Some n \<Rightarrow> n);
          dup_data = dup_data\<lparr>Molecule := Some name\<rparr>;
          rotmatches = mol_rotmatches mol
      in if int (length rotmatches) > max_torsions args then
           Some (Inr \<lparr>ss_status = - 1, ss_row = dup_data,
                      ss_log = lg @ [TooManyTorsions (length rotmatches)],
                      ss_embed_calls = [], ss_rdkit_sdf = [], ss_rotated_sdf = None\<rparr>)
         else
           (let dup_data = dup_data\<lparr>RDKIT_Initial_samples := Some initial_confs\<rparr>;
                rotmatches = (if nodihedrals args then [] else rotmatches);
                (cids, calls, lg) =
                   embed_conf EmbedMultipleConfs initial_confs args lg
                     coord_Map alg_Map mol_template;
                args = (if mol_atom_above_Kr mol then args\<lparr>ff := UFF\<rparr> else args)
            in case min_after_embed E args
                      (\<not> (coord_Map = None \<and> alg_Map = None \<and> mol_template = None))
                      cids rotmatches dup_data [] of
                 None \<Rightarrow> None
               | Some (Inl e) \<Rightarrow> Some (Inl e)
               | Some (Inr r) \<Rightarrow>
                   (if mae_status r \<noteq> - 1 then
                      (if \<not> nodihedrals args \<and> length rotmatches \<noteq> 0 then
                         (let (status, dup_data, rotated) =
                                filter_after_rotation E args (mae_sdwriter r) (mae_row r)
                          in Some (Inr \<lparr>ss_status = status, ss_row = dup_data, ss_log = lg,
                                ss_embed_calls = calls, ss_rdkit_sdf = mae_sdwriter r,
                                ss_rotated_sdf = Some rotated\<rparr>))
                       else if \<not> nodihedrals args \<and> length rotmatches = 0 then
                         Some (Inr \<lparr>ss_status = 0, ss_row = mae_row r, ss_log = lg,
                                ss_embed_calls = calls, ss_rdkit_sdf = mae_sdwriter r,
                                ss_rotated_sdf = None\<rparr>)
                       else
                         Some (Inr \<lparr>ss_status = mae_status r, ss_row = mae_row r, ss_log = lg,
                                ss_embed_calls = calls, ss_rdkit_sdf = mae_sdwriter r,
                                ss_rotated_sdf = None\<rparr>))
                    else
                      Some (Inr \<lparr>ss_status = mae_status r, ss_row = mae_row r, ss_log = lg,
                             ss_embed_calls = calls, ss_rdkit_sdf = mae_sdwriter r,
                             ss_rotated_sdf = None\<rparr>))))"

text \<open>What \<^verbatim>\<open>conformer_generation\<close> leaves behind: the result of \<^verbatim>\<open>summ_search\<close> (\<open>None\<close>
  when the structure is not valid), the row, the log, and for each refinement program the
  input file that \<^verbatim>\<open>mult_min\<close> was run on and the file it wrote (\<open>None\<close>: \<^verbatim>\<open>mult_min\<close> was
  not run with that program).\<close>

record ('g, 'cm) cg_result =
  cg_search :: "('g, 'cm) ss_result option"
  cg_row :: dup_row
  cg_log :: "log_msg list"
  cg_refined :: "program \<Rightarrow> ('g sdf_record list \<times> 'g sdf_record list) option"

text \<open>In \<open>conformer_generation\<close> below, a status other than 0 and -1 without dihedral
  scan switched off comes from \<^verbatim>\<open>filter_after_rotation\<close>, which has written the rotated
  file; the branch \<open>None\<close> of the file is never taken.\<close>

text \<open>One of the four calls of \<^verbatim>\<open>mult_min\<close> in \<^verbatim>\<open>conformer_generation\<close>, made when the
  option of the program is set.\<close>

definition refine_with ::
  "('g, 'm) engines \<Rightarrow> args \<Rightarrow> program \<Rightarrow> bool \<Rightarrow> 'g sdf_record list \<Rightarrow> ('g, 'cm) cg_result
     \<Rightarrow> error + ('g, 'cm) cg_result" where
  "refine_with E args program enabled infile res =
     (if enabled then
        (case mult_min E args program (map Some infile) (cg_row res) of
           Inl e \<Rightarrow> Inl e
         | Inr (dup_data, outfile, st) \<Rightarrow>
             Inr (res\<lparr>cg_row := dup_data,
                       cg_refined := (cg_refined res)(program := Some (infile, outfile))\<rparr>))
      else Inr res)"

definition conformer_generation ::
  "('g, 'm) engines \<Rightarrow> ('cm embed_call \<Rightarrow> 'g list) \<Rightarrow> 'm mol_info \<Rightarrow> string \<Rightarrow> args
     \<Rightarrow> log_msg list \<Rightarrow> dup_row \<Rightarrow> 'cm option \<Rightarrow> 'am option \<Rightarrow> 'tm option
     \<Rightarrow> (error + ('g, 'cm) cg_result) option" where
  "conformer_generation E EmbedMultipleConfs mol name args lg dup_data
       coord_Map alg_Map mol_template =
     (if mol_valid_structure mol then
        (case summ_search E EmbedMultipleConfs mol name args lg dup_data
                coord_Map alg_Map mol_template of
           None \<Rightarrow> None
         | Some (Inl e) \<Rightarrow> Some (Inl e)
         | Some (Inr r) \<Rightarrow>
             (let res = \<lparr>cg_search = Some r, cg_row = ss_row r, cg_log = ss_log r,
                         cg_refined = (\<lambda>_. None)\<rparr>;
                  gen = ss_status r
              in if gen \<noteq> - 1 then
                   (if nodihedrals args then
                      Some (case refine_with E args ani (ANI1ccx args) (ss_rdkit_sdf r) res of
                              Inl e \<Rightarrow> Inl e
                            | Inr res \<Rightarrow> refine_with E args xtb (xTB args) (ss_rdkit_sdf r) res)
                    else
                      (let infile = (if gen \<noteq> 0
                                     then (case ss_rotated_sdf r of
                                             Some rotated \<Rightarrow> rotated | None \<Rightarrow> [])
                                     else ss_rdkit_sdf r);
                           res = (if ANI1ccx args \<and> gen = 0
                                  then res\<lparr>cg_log := cg_log res @ [NoRotatableDihedrals ani]\<rparr>
                                  else res)
                       in Some (case refine_with E args ani (ANI1ccx args) infile res of
                                  Inl e \<Rightarrow> Inl e
                                | Inr res \<Rightarrow>
                                    (let res = (if xTB args \<and> gen = 0
                                          then res\<lparr>cg_log := cg_log res
                                                       @ [NoRotatableDihedrals xtb]\<rparr>
                                          else res)
                                     in refine_with E args xtb (xTB args) infile res))))
                 else Some (Inr res)))
      else
        Some (Inr \<lparr>cg_search = None, cg_row = dup_data, cg_log = lg @ [InvalidStructure],
                   cg_refined = (\<lambda>_. None)\<rparr>))"

declare deg_loop.simps [code]

section \<open>The calls of the embedding adapter, and concrete inputs\<close>

text \<open>The two engine calls that \<open>embed_conf\<close> can make for a requested count \<open>n\<close>.\<close>

definition standard_call :: "int \<Rightarrow> args \<Rightarrow> 'cm option \<Rightarrow> 'cm embed_call" where
  "standard_call n args cm = \<lparr>numConfs = n, randomSeed = seed args,
      useRandomCoords = False, boxSizeMult = None, numZeroFail = None, coordMap = cm\<rparr>"

definition retry_call :: "int \<Rightarrow> args \<Rightarrow> 'cm option \<Rightarrow> 'cm embed_call" where
  "retry_call n args cm = \<lparr>numConfs = n, randomSeed = seed args,
      useRandomCoords = True, boxSizeMult = Some 10, numZeroFail = Some 1000, coordMap = cm\<rparr>"

text \<open>Concrete options and engines on which the theorems below are evaluated. A geometry
  is an integer here, the RMSD of two geometries their distance; \<open>toy_engines\<close> has a force
  field that leaves a geometry as it is and takes the geometry itself as the energy.\<close>

definition toy_args :: args where
  "toy_args = \<lparr>ff = MMFF, initial_energy_threshold = 1 / 10000, energy_threshold = 1 / 4,
     rms_threshold = 1 / 4, heavyonly = True, degree = 120, ewin = 40, opt_steps = 1000,
     max_torsions = 5, nodihedrals = False, sample = Some 20, auto_sample = 20,
     metal_complex = False, metal_idx = [], seed = 62609, ANI1ccx = False, xTB = True\<rparr>"

definition toy_engines :: "(int, unit) engines" where
  "toy_engines = \<lparr>ff_minimize = (\<lambda>f c g. (g, real_of_int g)),
      set_dihedral_deg = (\<lambda>g m a. g),
      best_rms = (\<lambda>h a b. \<bar>real_of_int (a - b)\<bar>),
      sqm_run = (\<lambda>p g. (1, real_of_int g, g))\<rparr>"

text \<open>A molecule with two rotatable bonds and an embedding engine that yields two
  conformers; \<open>stuck_engines\<close>: the optimizer uses all of its 1000 steps on geometry 5
  (the trajectory has 1001 frames); \<open>stale_engines\<close>: the force field takes every geometry
  to geometry 0, with energy 0 from geometry 20 and 1/10 from any other.\<close>

definition toy_mol :: "unit mol_info" where
  "toy_mol = \<lparr>mol_descriptors = \<lparr>NumRotatableBonds = 2, NHOHCount = 0, NumSaturatedRings = 0\<rparr>,
      mol_rotmatches = [(), ()], mol_atom_above_Kr = False, mol_valid_structure = True\<rparr>"

definition toy_embed :: "unit embed_call \<Rightarrow> int list" where
  "toy_embed c = [3, 5]"

definition stuck_engines :: "(int, unit) engines" where
  "stuck_engines =
     toy_engines\<lparr>sqm_run := (\<lambda>p g. (if g = 5 then 1001 else 1, real_of_int g, g))\<rparr>"

definition stale_engines :: "(int, unit) engines" where
  "stale_engines =
     toy_engines\<lparr>ff_minimize := (\<lambda>f c g. (0, if g = 20 then 0 else 1 / 10))\<rparr>"

text \<open>The definitions that evaluate the pipeline on a concrete input.\<close>

lemmas pipeline_evals =
  mae_filters_def toy_args_def toy_engines_def Let_def sortedcids_def prefilter_def
  prefilter_step_def rms_filter_def rms_filter_step_def get_conf_RMS_def enumerate_eq_zip
  genConformer_r.simps deg_loop.simps min_after_embed_def summ_search_def
  conformer_generation_def toy_mol_def toy_embed_def embed_conf_def filter_after_rotation_def
  far_loop_def far_step_def refine_with_def mult_min_def mult_min_body_def optimize_def
  write_confs_def stuck_engines_def stale_engines_def empty_row_def

text \<open>For the statements about the refinement stage: the energies that the optimizer
  returns for the records of an input file, in file order, and one update of the running
  global minimum.\<close>

definition refined_energies ::
  "('g, 'm) engines \<Rightarrow> program \<Rightarrow> 'g sdf_record option list \<Rightarrow> real list" where
  "refined_energies E program inmols =
     map (\<lambda>mol. fst (snd (sqm_run E program (sd_geom mol)))) (List.map_filter id inmols)"

definition running_min :: "real option \<Rightarrow> real \<Rightarrow> real option" where
  "running_min gm energy = Some (case gm of None \<Rightarrow> energy | Some g \<Rightarrow> min g energy)"

text \<open>For the statements about the accepted sets. \<open>later_unique\<close>: every element but
  the first passes the duplicate comparison against the elements before it. \<open>far_inv\<close>,
  \<open>mm_inv\<close> and \<open>count_inv\<close> are the invariants of the loops of
  \<^verbatim>\<open>filter_after_rotation\<close>, of \<^verbatim>\<open>mult_min\<close> and of the two stages of
  \<^verbatim>\<open>min_after_embed\<close> (after a non-empty prefix \<open>pre\<close> of the candidates, the accepted ids
  and the counter add up to the length of \<open>pre\<close>).\<close>

definition energy_geom :: "'g sdf_record \<Rightarrow> real \<times> 'g" where
  "energy_geom m = (sd_energy m, sd_geom m)"

definition later_unique :: "('g, 'm) engines \<Rightarrow> args \<Rightarrow> (real \<times> 'g) list \<Rightarrow> bool" where
  "later_unique E args xs \<longleftrightarrow>
     list_all (\<lambda>k. compare_accepted E args (fst (xs ! k)) (snd (xs ! k)) (take k xs) = Unique)
       [1 ..< length xs]"

definition far_inv :: "('g, 'm) engines \<Rightarrow> args \<Rightarrow> nat \<Rightarrow> 'g far_state \<Rightarrow> bool" where
  "far_inv E args n st \<longleftrightarrow>
     sdwriter_rd st = map snd (rd_selectedcids st)
     \<and> (rd_count st = 0 \<longleftrightarrow> rd_selectedcids st = [])
     \<and> (n = 0 \<longleftrightarrow> rd_selectedcids st = [])
     \<and> (\<forall>i \<in> set (map fst (rd_selectedcids st)). i < n)
     \<and> later_unique E args (map (energy_geom \<circ> snd) (rd_selectedcids st))"

definition mm_inv :: "('g, 'm) engines \<Rightarrow> args \<Rightarrow> 'g mm_state \<Rightarrow> bool" where
  "mm_inv E args st \<longleftrightarrow>
     length (c_energy st) = length (mm_outmols st)
     \<and> later_unique E args (zip (c_energy st) (mm_outmols st))"

definition count_inv :: "nat list \<Rightarrow> nat list \<times> int \<Rightarrow> bool" where
  "count_inv pre st \<longleftrightarrow>
     (pre = [] \<and> st = ([], - 1))
     \<or> (pre \<noteq> [] \<and> fst st \<noteq> [] \<and> set (fst st) \<subseteq> set pre
        \<and> int (length pre) = int (length (fst st)) + snd st)"

text \<open>\<open>stage_b_ok\<close>: no selected conformer is within both thresholds of one selected before
  it, the RMSD read as Stage B reads it, inside the copy that belongs to the later
  conformer.\<close>

definition stage_b_ok ::
  "('g, 'm) engines \<Rightarrow> args \<Rightarrow> real list \<Rightarrow> 'g pmol list \<Rightarrow> nat list \<Rightarrow> bool" where
  "stage_b_ok E args cenergy outmols sel \<longleftrightarrow>
     (\<forall>k < length sel. \<forall>j < k.
        \<not> (\<bar>cenergy ! (sel ! k) - cenergy ! (sel ! j)\<bar> < energy_threshold args
            \<and> get_conf_RMS E (confs (outmols ! (sel ! k)) ! (sel ! j))
                 (confs (outmols ! (sel ! k)) ! (sel ! k)) (heavyonly args)
               < rms_threshold args))"

section \<open>Theorems\<close>

text \<open>
  C6. For every molecule and multiplier, \<open>auto_sampling\<close> computes
  \<open>raw = 3 * rotatable bonds + 3 * polar H donors + 3 * saturated rings\<close> and returns the
  multiplier when \<open>raw = 0\<close> and \<open>multiplier * raw\<close> otherwise, where for a metal complex
  with at least one metal centre the multiplier is first multiplied by three times the
  number of metal centres. The result is a function of the descriptor counts, the
  multiplier and the metal options alone.
\<close>

theorem auto_sampling_contract:
  "auto_sampling mult_factor mol args =
     spec_estimate_initial_samples (NumRotatableBonds mol) (NHOHCount mol)
       (NumSaturatedRings mol) (metal_complex args) (length (metal_idx args)) mult_factor"
  by (cases "metal_idx args")
    (simp_all add: auto_sampling_def spec_estimate_initial_samples_def Let_def)


theorem auto_sampling_contract_witness:
  "auto_sampling 20 \<lparr>NumRotatableBonds = 4, NHOHCount = 0, NumSaturatedRings = 0\<rparr> toy_args = 240
   \<and> auto_sampling 5 \<lparr>NumRotatableBonds = 4, NHOHCount = 0, NumSaturatedRings = 0\<rparr> toy_args = 60
   \<and> auto_sampling 20 \<lparr>NumRotatableBonds = 0, NHOHCount = 0, NumSaturatedRings = 0\<rparr>
         (toy_args\<lparr>metal_complex := True, metal_idx := [7, 9]\<rparr>) = 120"
  using auto_sampling_contract [of 20
        "\<lparr>NumRotatableBonds = 4, NHOHCount = 0, NumSaturatedRings = 0\<rparr>" toy_args]
    auto_sampling_contract [of 5
        "\<lparr>NumRotatableBonds = 4, NHOHCount = 0, NumSaturatedRings = 0\<rparr>" toy_args]
    auto_sampling_contract [of 20
        "\<lparr>NumRotatableBonds = 0, NHOHCount = 0, NumSaturatedRings = 0\<rparr>"
        "toy_args\<lparr>metal_complex := True, metal_idx := [7, 9]\<rparr>"]
  by (simp add: spec_estimate_initial_samples_def toy_args_def)

text \<open>
  C8. The embedding adapter calls the engine once with the standard settings, and makes
  exactly one more call, with random coordinates, a box size multiplier of 10 and a failure
  budget, if and only if the first call returns no conformer, or exactly one while the
  requested count \<open>n\<close> is greater than 1. The result is what the last call returned,
  whatever its length: \<open>embed_conf\<close> has no error result. The engine returns at most \<open>n\<close>
  conformers (the hypothesis).
\<close>

theorem embed_conf_single_retry:
  assumes "int (length (EmbedMultipleConfs (standard_call n args cm))) \<le> n"
  shows "embed_conf EmbedMultipleConfs n args lg cm am tm =
     (let first = EmbedMultipleConfs (standard_call n args cm) in
      if length first = 0 \<or> (length first = 1 \<and> n > 1)
      then (EmbedMultipleConfs (retry_call n args cm),
            [standard_call n args cm, retry_call n args cm], lg @ [EmbedRetry n])
      else (first, [standard_call n args cm], lg))"
  using assms
  by (cases cm) (auto simp: embed_conf_def standard_call_def retry_call_def Let_def)

theorem embed_conf_single_retry_witness:
  "embed_conf (\<lambda>c. if useRandomCoords c then [7, 8, 9 :: int] else [7]) 5 toy_args []
      (None :: unit option) (None :: unit option) (None :: unit option)
   = ([7, 8, 9], [standard_call 5 toy_args None, retry_call 5 toy_args None], [EmbedRetry 5])"
  using embed_conf_single_retry [of "\<lambda>c. if useRandomCoords c then [7, 8, 9 :: int] else [7]"
      5 toy_args "None :: unit option" "[]" "None :: unit option" "None :: unit option"]
  by (simp add: standard_call_def retry_call_def)

subsection \<open>The torsion grid\<close>





lemma length_spec_grid_angles [simp]:
  "length (spec_grid_angles d) = nat \<lceil>360 / d\<rceil>"
  by (simp add: spec_grid_angles_def)










subsection \<open>Admission control\<close>




subsection \<open>Non-convergence of the refinement optimizer\<close>

lemma optimize_not_converged:
  "fst (sqm_run E program mol) = opt_steps args + 1
    \<Longrightarrow> optimize E args program mol = Inl UnboundLocalError"
  by (cases "sqm_run E program mol") (simp add: optimize_def)

lemma optimize_error: "optimize E args program mol = Inl e \<Longrightarrow> e = UnboundLocalError"
  by (auto simp: optimize_def split: prod.splits if_splits)

lemma mult_min_loop_not_converged:
  assumes "Some mol \<in> set inmols"
    and "fst (sqm_run E program (sd_geom mol)) = opt_steps args + 1"
  shows "mult_min_loop E args program inmols st = Inl UnboundLocalError"
  using assms
proof (induction inmols arbitrary: st)
  case Nil
  then show ?case by simp
next
  case (Cons m inmols)
  show ?case
  proof (cases m)
    case None
    with Cons show ?thesis by simp
  next
    case (Some mol')
    show ?thesis
    proof (cases "optimize E args program (sd_geom mol')")
      case (Inl e)
      with Some show ?thesis using optimize_error [OF Inl] by simp
    next
      case (Inr r)
      then have "mol' \<noteq> mol" using Cons.prems(2) optimize_not_converged by fastforce
      with Cons Some Inr show ?thesis by simp
    qed
  qed
qed

text \<open>
  C5. A conformer whose refinement optimizer does not converge within its iteration budget
  is meant to be counted and discarded, the pipeline going on with the other conformers. The
  code does not do so: with three conformers of which the second uses all its steps,
  \<open>optimize\<close> reads the unassigned variable \<^verbatim>\<open>converged\<close>, and the error leaves \<open>mult_min\<close>
  and \<open>conformer_generation\<close>; nothing is counted and no conformer is written.
\<close>

theorem non_convergence_raises:
  "mult_min stuck_engines toy_args xtb
       [Some \<lparr>sd_geom = 3, sd_energy = 3\<rparr>, Some \<lparr>sd_geom = 5, sd_energy = 5\<rparr>,
        Some \<lparr>sd_geom = 7, sd_energy = 7\<rparr>] empty_row = Inl UnboundLocalError
   \<and> conformer_generation stuck_engines toy_embed toy_mol ''pentane''
        (toy_args\<lparr>nodihedrals := True\<rparr>) [] empty_row
        (None :: unit option) (None :: unit option) (None :: unit option)
      = Some (Inl UnboundLocalError)"
  by (simp add: pipeline_evals)

subsection \<open>The duplicate counters on an empty input\<close>

text \<open>
  C10. The number of embedded conformers is meant to equal the pre-filter duplicate count
  plus the geometry duplicate count plus the unique-conformer count. With no embedded
  conformer the code records -1, -1 and 0: both counters keep their initial value, as no
  first conformer is compared with itself. With one embedded conformer and a pre-filter
  threshold of 0 it records -1, 0 and 1: the comparison of the first conformer with itself
  is not below the threshold, and nothing offsets the initial -1.
\<close>

theorem counters_empty_input:
  "min_after_embed E args template [] rotmatches dup_data sdwriter =
     Some (Inr \<lparr>mae_status = 1,
        mae_row = dup_data\<lparr>RDKit_energy_duplicates := Some (- 1),
                    RDKit_RMSD_and_energy_duplicates := Some (- 1),
                    RDKIT_Unique_conformers := Some 0,
                    RDKIT_Rotated_conformers := Some 0\<rparr>,
        mae_sdwriter = sdwriter, mae_selectedcids = []\<rparr>)
   \<and> int (length ([] :: 'g list)) \<noteq> (- 1) + (- 1) + 0
   \<and> (\<exists>r. min_after_embed toy_engines (toy_args\<lparr>initial_energy_threshold := 0\<rparr>) False
               [3] ([] :: unit list) empty_row [] = Some (Inr r)
          \<and> RDKit_energy_duplicates (mae_row r) = Some (- 1)
          \<and> RDKit_RMSD_and_energy_duplicates (mae_row r) = Some 0
          \<and> RDKIT_Unique_conformers (mae_row r) = Some 1
          \<and> int (length [3 :: int]) \<noteq> (- 1) + 0 + 1)"
proof -
  have "min_after_embed E args template [] rotmatches dup_data sdwriter =
     Some (Inr \<lparr>mae_status = 1,
        mae_row = dup_data\<lparr>RDKit_energy_duplicates := Some (- 1),
                    RDKit_RMSD_and_energy_duplicates := Some (- 1),
                    RDKIT_Unique_conformers := Some 0,
                    RDKIT_Rotated_conformers := Some 0\<rparr>,
        mae_sdwriter = sdwriter, mae_selectedcids = []\<rparr>)"
    by (simp add: min_after_embed_def mae_filters_def prefilter_def rms_filter_def
          sortedcids_def Let_def)
  moreover have "\<exists>r. min_after_embed toy_engines (toy_args\<lparr>initial_energy_threshold := 0\<rparr>)
               False [3] ([] :: unit list) empty_row [] = Some (Inr r)
          \<and> RDKit_energy_duplicates (mae_row r) = Some (- 1)
          \<and> RDKit_RMSD_and_energy_duplicates (mae_row r) = Some 0
          \<and> RDKIT_Unique_conformers (mae_row r) = Some 1"
    by (simp add: pipeline_evals)
  ultimately show ?thesis by simp
qed

text \<open>
  C7. Running the post-rotation filter on its own output is meant to report zero
  duplicates of either kind. On the empty sequence, which is its own output, the reported
  energy-duplicate count is -1. On a single conformer with a pre-filter threshold of 0,
  again its own output, the second run removes nothing and reports -1 energy duplicates
  and 1 geometry duplicate.
\<close>

theorem rerun_empty_counts:
  "sdwriter_rd (far_loop E args []) = []
   \<and> rd_dup_energy (far_loop E args (sdwriter_rd (far_loop E args []))) = - 1
   \<and> rd_dup_rms_eng (far_loop E args (sdwriter_rd (far_loop E args []))) = 0
   \<and> sdwriter_rd (far_loop toy_engines (toy_args\<lparr>initial_energy_threshold := 0\<rparr>)
         [\<lparr>sd_geom = 3, sd_energy = 3\<rparr>]) = [\<lparr>sd_geom = 3, sd_energy = 3\<rparr>]
   \<and> sdwriter_rd (far_loop toy_engines (toy_args\<lparr>initial_energy_threshold := 0\<rparr>)
         (sdwriter_rd (far_loop toy_engines (toy_args\<lparr>initial_energy_threshold := 0\<rparr>)
            [\<lparr>sd_geom = 3, sd_energy = 3\<rparr>]))) = [\<lparr>sd_geom = 3, sd_energy = 3\<rparr>]
   \<and> rd_dup_energy (far_loop toy_engines (toy_args\<lparr>initial_energy_threshold := 0\<rparr>)
         (sdwriter_rd (far_loop toy_engines (toy_args\<lparr>initial_energy_threshold := 0\<rparr>)
            [\<lparr>sd_geom = 3, sd_energy = 3\<rparr>]))) = - 1
   \<and> rd_dup_rms_eng (far_loop toy_engines (toy_args\<lparr>initial_energy_threshold := 0\<rparr>)
         (sdwriter_rd (far_loop toy_engines (toy_args\<lparr>initial_energy_threshold := 0\<rparr>)
            [\<lparr>sd_geom = 3, sd_energy = 3\<rparr>]))) = 1"
  by (simp add: pipeline_evals)

subsection \<open>The accepted set of the minimization stage\<close>

text \<open>
  C1. No two conformers of a final accepted set are meant to be within both thresholds of
  each other. In \<open>min_after_embed\<close> the RMSD of a candidate \<open>conf\<close> against an accepted
  \<open>seenconf\<close> is taken inside the copy \<^verbatim>\<open>outmols[conf]\<close>, which was made before the
  conformers with a greater id were minimized. With two embedded conformers that minimize
  to the same geometry, the second with the lower energy, the first is compared with the
  embedded geometry of the second, and both are accepted: two written conformers with equal
  geometry (RMSD 0) and energies 1/10 apart, under thresholds of 1/4.
\<close>

theorem stale_copy_accepts_duplicate:
  "\<exists>r a b. min_after_embed stale_engines toy_args False [10, 20] ([] :: unit list) empty_row []
               = Some (Inr r)
     \<and> mae_selectedcids r = [1, 0]
     \<and> mae_sdwriter r = [a, b]
     \<and> a = \<lparr>sd_geom = 0, sd_energy = 0\<rparr> \<and> b = \<lparr>sd_geom = 0, sd_energy = 1 / 10\<rparr>
     \<and> \<bar>sd_energy a - sd_energy b\<bar> < energy_threshold toy_args
     \<and> get_conf_RMS stale_engines (sd_geom a) (sd_geom b) (heavyonly toy_args)
         < rms_threshold toy_args"
  by (simp add: pipeline_evals)

subsection \<open>The refinement stage: running minimum and acceptance test\<close>

lemma globmin_mult_min_body:
  "globmin (mult_min_body E args st (mol, converged, energy)) = running_min (globmin st) energy"
  by (auto simp: mult_min_body_def running_min_def Let_def min_def
      split: option.splits verdict.splits)

lemma optimize_Inr:
  "optimize E args program g = Inr r \<Longrightarrow>
     \<exists>mol. r = (mol, 0, fst (snd (sqm_run E program g)))"
  by (cases "sqm_run E program g") (auto simp: optimize_def split: if_splits)

lemma refined_energies_simps [simp]:
  "refined_energies E program [] = []"
  "refined_energies E program (None # inmols) = refined_energies E program inmols"
  "refined_energies E program (Some mol # inmols)
     = fst (snd (sqm_run E program (sd_geom mol))) # refined_energies E program inmols"
  by (simp_all add: refined_energies_def List.map_filter_simps)

lemma globmin_mult_min_loop:
  "mult_min_loop E args program inmols st0 = Inr st \<Longrightarrow>
   globmin st = fold (\<lambda>e gm. running_min gm e) (refined_energies E program inmols) (globmin st0)"
proof (induction inmols arbitrary: st0)
  case Nil
  then show ?case by simp
next
  case (Cons m inmols)
  show ?case
  proof (cases m)
    case None
    with Cons show ?thesis by simp
  next
    case (Some mol)
    with Cons.prems obtain r where r: "optimize E args program (sd_geom mol) = Inr r"
      and l: "mult_min_loop E args program inmols (mult_min_body E args st0 r) = Inr st"
      by (auto split: sum.splits)
    obtain g where "r = (g, 0, fst (snd (sqm_run E program (sd_geom mol))))"
      using optimize_Inr [OF r] by blast
    then show ?thesis
      using Cons.IH [OF l] Some by (simp add: globmin_mult_min_body)
  qed
qed

lemma fold_running_min_Some:
  "fold (\<lambda>e gm. running_min gm e) es (Some g) = Some (Min (insert g (set es)))"
proof (induction es arbitrary: g)
  case Nil
  show ?case by simp
next
  case (Cons e es)
  have "Min (insert (min g e) (set es)) = Min (insert g (insert e (set es)))"
    by (cases "set es = {}") (auto simp: min_def Min_insert2 intro: antisym)
  then show ?case using Cons by (simp add: running_min_def)
qed

lemma fold_running_min_None:
  "fold (\<lambda>e gm. running_min gm e) es None = (if es = [] then None else Some (Min (set es)))"
proof (cases es)
  case Nil
  then show ?thesis by simp
next
  case (Cons e es')
  have "running_min None e = Some e" by (simp add: running_min_def)
  then have "fold (\<lambda>e gm. running_min gm e) es None = Some (Min (insert e (set es')))"
    using fold_running_min_Some [of es' e] Cons by simp
  then show ?thesis using Cons by simp
qed

text \<open>
  C4 (as amended). After any run of the refinement loop that returned, the running global
  minimum is the least energy of all conformers processed so far in input order. For the
  next conformer whose optimization returned, the minimum is updated first; the conformer
  is rejected outright and counted as high-energy (and as nothing else, the accepted set
  and the duplicate counters unchanged) if and only if its convergence flag is not 0 or its
  energy is at least the updated minimum plus \<open>ewin\<close>; otherwise, and only then, it is
  compared for duplicates against the already accepted conformers.
\<close>

theorem refinement_acceptance_policy:
  assumes "mult_min_loop E args program inmols mm_init = Inr st"
  shows "globmin st = (if refined_energies E program inmols = [] then None
                       else Some (Min (set (refined_energies E program inmols))))
     \<and> (let gm = (case globmin st of None \<Rightarrow> energy | Some g \<Rightarrow> min g energy);
             st' = mult_min_body E args st (mol, converged, energy);
             rejected = (converged \<noteq> 0 \<or> energy \<ge> gm + ewin args)
         in globmin st' = Some gm
            \<and> (n_high st' = n_high st + 1 \<longleftrightarrow> rejected)
            \<and> (n_high st' = n_high st \<longleftrightarrow> \<not> rejected)
            \<and> (if rejected then st' = st\<lparr>globmin := Some gm, n_high := n_high st + 1\<rparr>
                else st' =
                  (case compare_accepted E args energy mol (zip (c_energy st) (mm_outmols st)) of
                     EnergyDup \<Rightarrow> st\<lparr>globmin := Some gm, n_dup_energy := n_dup_energy st + 1\<rparr>
                   | RmsDup \<Rightarrow> st\<lparr>globmin := Some gm, n_dup_rms_eng := n_dup_rms_eng st + 1\<rparr>
                   | Unique \<Rightarrow> st\<lparr>globmin := Some gm, mm_outmols := mm_outmols st @ [mol],
                         c_converged := c_converged st @ [converged],
                         c_energy := c_energy st @ [energy]\<rparr>)))"
proof -
  have 1: "globmin st = (if refined_energies E program inmols = [] then None
                       else Some (Min (set (refined_energies E program inmols))))"
    using globmin_mult_min_loop [OF assms] by (simp add: fold_running_min_None)
  have 2: "(let gm = (case globmin st of None \<Rightarrow> energy | Some g \<Rightarrow> min g energy);
             st' = mult_min_body E args st (mol, converged, energy);
             rejected = (converged \<noteq> 0 \<or> energy \<ge> gm + ewin args)
         in globmin st' = Some gm
            \<and> (n_high st' = n_high st + 1 \<longleftrightarrow> rejected)
            \<and> (n_high st' = n_high st \<longleftrightarrow> \<not> rejected)
            \<and> (if rejected then st' = st\<lparr>globmin := Some gm, n_high := n_high st + 1\<rparr>
                else st' =
                  (case compare_accepted E args energy mol (zip (c_energy st) (mm_outmols st)) of
                     EnergyDup \<Rightarrow> st\<lparr>globmin := Some gm, n_dup_energy := n_dup_energy st + 1\<rparr>
                   | RmsDup \<Rightarrow> st\<lparr>globmin := Some gm, n_dup_rms_eng := n_dup_rms_eng st + 1\<rparr>
                   | Unique \<Rightarrow> st\<lparr>globmin := Some gm, mm_outmols := mm_outmols st @ [mol],
                         c_converged := c_converged st @ [converged],
                         c_energy := c_energy st @ [energy]\<rparr>)))"
    by (cases "compare_accepted E args energy mol (zip (c_energy st) (mm_outmols st))";
        cases "globmin st")
       (auto simp: mult_min_body_def Let_def min_def)
  from 1 2 show ?thesis by blast
qed

theorem refinement_acceptance_policy_witness:
  "\<exists>st. mult_min_loop toy_engines toy_args xtb [Some \<lparr>sd_geom = 0, sd_energy = 0\<rparr>] mm_init
           = Inr st
     \<and> globmin st = Some 0
     \<and> n_high (mult_min_body toy_engines toy_args st (40, 0, 40)) = n_high st + 1
     \<and> n_high (mult_min_body toy_engines toy_args st (39, 0, 39)) = n_high st"
proof -
  let ?st = "\<lparr>globmin = Some 0, n_high = 0, n_dup_energy = 0, n_dup_rms_eng = 0,
       mm_outmols = [0 :: int], c_converged = [0], c_energy = [0]\<rparr>"
  have l: "mult_min_loop toy_engines toy_args xtb [Some \<lparr>sd_geom = 0, sd_energy = 0\<rparr>] mm_init
             = Inr ?st"
    by (simp add: optimize_def mult_min_body_def toy_engines_def toy_args_def)
  have e: "ewin toy_args = 40" by (simp add: toy_args_def)
  have "n_high (mult_min_body toy_engines toy_args ?st (40, 0, 40)) = n_high ?st + 1"
    using refinement_acceptance_policy [OF l, where energy = 40 and mol = 40 and converged = 0]
    by (simp add: Let_def e)
  moreover have "n_high (mult_min_body toy_engines toy_args ?st (39, 0, 39)) = n_high ?st"
    using refinement_acceptance_policy [OF l, where energy = 39 and mol = 39 and converged = 0]
    by (simp add: Let_def e)
  ultimately show ?thesis using l by simp
qed

text \<open>The claim as stated fails at the boundary: with \<open>ewin = 40\<close>, a converged conformer
  of energy 40 after one of energy 0 does not exceed the minimum plus \<open>ewin\<close>, and is
  rejected as high-energy.\<close>

theorem energy_at_window_rejected_counterexample:
  "optimize toy_engines toy_args xtb 40 = Inr (40, 0, 40)
   \<and> (\<exists>st. mult_min_loop toy_engines toy_args xtb
              [Some \<lparr>sd_geom = 0, sd_energy = 0\<rparr>, Some \<lparr>sd_geom = 40, sd_energy = 40\<rparr>] mm_init
            = Inr st
          \<and> globmin st = Some 0 \<and> n_high st = 1 \<and> c_energy st = [0]
          \<and> n_dup_energy st = 0 \<and> n_dup_rms_eng st = 0)
   \<and> \<not> (40 > 0 + ewin toy_args)"
  by (simp add: optimize_def mult_min_body_def toy_engines_def toy_args_def)

subsection \<open>The order in which a pass examines its candidates\<close>


lemma prefilter_step_cases:
  "fst (prefilter_step args cenergy (sel, k) (i, conf)) = sel
   \<or> fst (prefilter_step args cenergy (sel, k) (i, conf)) = sel @ [conf]"
  by (simp add: prefilter_step_def Let_def)

lemma prefilter_fold_subseq:
  "subseq (fst st) pre \<Longrightarrow>
   subseq (fst (fold (\<lambda>ic st. prefilter_step args cenergy st ic) (enumerate n xs) st))
          (pre @ xs)"
proof (induction xs arbitrary: n st pre)
  case Nil
  then show ?case by simp
next
  case (Cons x xs)
  obtain sel k where st: "st = (sel, k)" by (cases st)
  have "subseq (fst (prefilter_step args cenergy st (n, x))) (pre @ [x])"
    using prefilter_step_cases [of args cenergy sel k n x] Cons.prems st
    by (auto intro: subseq_rev_drop_many)
  from Cons.IH [OF this] show ?case by simp
qed

lemma prefilter_subseq: "subseq (fst (prefilter args cenergy xs)) xs"
  using prefilter_fold_subseq [of "([], - 1)" "[]" args cenergy 0 xs]
  by (simp add: prefilter_def)

lemma rms_filter_step_cases:
  "fst (snd (rms_filter_step E args rotmatches cenergy (outmols, sel, k) (i, conf))) = sel
   \<or> fst (snd (rms_filter_step E args rotmatches cenergy (outmols, sel, k) (i, conf)))
       = sel @ [conf]"
  by (simp add: rms_filter_step_def Let_def)






lemma far_loop_snoc:
  "far_loop E args (rdmols @ [m]) = far_step E args (far_loop E args rdmols) (length rdmols, m)"
  by (simp add: far_loop_def enumerate_append_eq)


lemma mae_filters_Inr:
  assumes "mae_filters E args template mol rotmatches
             = Inr (cenergy, outmols, (si, ed), (sc, erd))"
  shows "prefilter args cenergy (sortedcids cenergy) = (si, ed)"
    and "\<exists>om. rms_filter E args rotmatches cenergy om si = (outmols, sc, erd)"
  using assms
  by (auto simp: mae_filters_def Let_def split: sum.splits prod.splits)




subsection \<open>What the accepted sets do satisfy\<close>

lemma energy_geom_sel [simp]:
  "fst (energy_geom m) = sd_energy m" "snd (energy_geom m) = sd_geom m"
  by (simp_all add: energy_geom_def)

lemma later_unique_Nil [simp]: "later_unique E args []"
  by (simp add: later_unique_def)

lemma later_unique_single [simp]: "later_unique E args [x]"
  by (simp add: later_unique_def)

lemma later_unique_snoc:
  "later_unique E args (xs @ [x]) \<longleftrightarrow>
     later_unique E args xs \<and> (xs \<noteq> [] \<longrightarrow> compare_accepted E args (fst x) (snd x) xs = Unique)"
proof (cases "xs = []")
  case True
  then show ?thesis by simp
next
  case False
  then have "[1 ..< length (xs @ [x])] = [1 ..< length xs] @ [length xs]"
    by (cases xs) simp_all
  then show ?thesis using False
    by (auto simp: later_unique_def list_all_iff nth_append)
qed

lemma compare_accepted_Unique:
  "compare_accepted E args e g seen = Unique \<longleftrightarrow>
     (\<forall>(ej, gj) \<in> set seen.
        \<not> \<bar>e - ej\<bar> < initial_energy_threshold args
        \<and> \<not> (\<bar>e - ej\<bar> < energy_threshold args
              \<and> get_conf_RMS E g gj (heavyonly args) < rms_threshold args))"
  by (induction seen) (auto split: if_splits)

lemma map_energy_geom:
  "map (\<lambda>(j, rd_mol_j). (sd_energy rd_mol_j, sd_geom rd_mol_j)) xs = map (energy_geom \<circ> snd) xs"
  by (induction xs) (auto simp: energy_geom_def)

lemma far_inv_step:
  assumes "far_inv E args n st"
  shows "far_inv E args (Suc n) (far_step E args st (n, m))"
proof (cases "rd_selectedcids st = []")
  case True
  with assms have c: "rd_count st = 0" and w: "sdwriter_rd st = []"
    by (auto simp: far_inv_def)
  show ?thesis
    using True c w
    by (cases "compare_accepted E args (sd_energy m) (sd_geom m) [(sd_energy m, sd_geom m)]")
       (auto simp: far_inv_def far_step_def Let_def)
next
  case False
  with assms have c: "rd_count st \<noteq> 0" by (auto simp: far_inv_def)
  have notin: "n \<notin> set (map fst (rd_selectedcids st))"
    using assms by (auto simp: far_inv_def)
  let ?v = "compare_accepted E args (sd_energy m) (sd_geom m)
              (map (energy_geom \<circ> snd) (rd_selectedcids st))"
  show ?thesis
  proof (cases ?v)
    case Unique
    then show ?thesis using assms False c notin
      by (auto simp: far_inv_def far_step_def Let_def map_energy_geom later_unique_snoc
            energy_geom_def less_Suc_eq)
  next
    case EnergyDup
    then show ?thesis using assms False c
      by (auto simp: far_inv_def far_step_def Let_def map_energy_geom less_Suc_eq)
  next
    case RmsDup
    then show ?thesis using assms False c
      by (auto simp: far_inv_def far_step_def Let_def map_energy_geom less_Suc_eq)
  qed
qed

lemma far_inv_fold:
  "far_inv E args n st \<Longrightarrow>
   far_inv E args (n + length xs)
     (fold (\<lambda>imol st. far_step E args st imol) (enumerate n xs) st)"
proof (induction xs arbitrary: n st)
  case Nil
  then show ?case by simp
next
  case (Cons x xs)
  from Cons.IH [OF far_inv_step [OF Cons.prems]] show ?case by simp
qed

lemma far_inv_loop: "far_inv E args (length rdmols) (far_loop E args rdmols)"
  using far_inv_fold [of E args 0 far_init rdmols]
  by (simp add: far_loop_def far_inv_def)


lemma map_fst_enumerate: "map fst (enumerate n xs) = [n ..< n + length xs]"
  by (simp add: enumerate_eq_zip)

lemma map_snd_enumerate: "map snd (enumerate n xs) = xs"
  by (simp add: enumerate_eq_zip)

lemma far_rerun:
  assumes "later_unique E args (map energy_geom W)"
  shows "rd_selectedcids (far_loop E args W) = enumerate 0 W
       \<and> sdwriter_rd (far_loop E args W) = W
       \<and> (rd_count (far_loop E args W) = 0 \<longleftrightarrow> W = [])
       \<and> (0 < initial_energy_threshold args \<longrightarrow>
            rd_dup_energy (far_loop E args W) = (if W = [] then - 1 else 0)
            \<and> rd_dup_rms_eng (far_loop E args W) = 0)"
  using assms
proof (induction W rule: rev_induct)
  case Nil
  show ?case by (simp add: far_loop_def)
next
  case (snoc m W)
  from snoc.prems have lu: "later_unique E args (map energy_geom W)"
    and u: "W \<noteq> [] \<longrightarrow> compare_accepted E args (sd_energy m) (sd_geom m) (map energy_geom W)
              = Unique"
    by (simp_all add: later_unique_snoc)
  note IH = snoc.IH [OF lu]
  let ?st = "far_loop E args W"
  show ?case
  proof (cases "W = []")
    case True
    then have s1: "far_loop E args (W @ [m]) = far_step E args far_init (0, m)"
      by (simp add: far_loop_def)
    show ?thesis
      unfolding s1 using True
      by (cases "compare_accepted E args (sd_energy m) (sd_geom m) [(sd_energy m, sd_geom m)]")
         (auto simp: far_step_def Let_def)
  next
    case False
    with IH have c: "rd_count ?st \<noteq> 0" by simp
    have sel: "map (\<lambda>(j, rd_mol_j). (sd_energy rd_mol_j, sd_geom rd_mol_j)) (rd_selectedcids ?st)
                 = map energy_geom W"
      using IH by (simp add: map_energy_geom map_snd_enumerate flip: map_map)
    have notin: "length W \<notin> set (map fst (rd_selectedcids ?st))"
      using IH by (simp add: map_fst_enumerate)
    have "far_step E args ?st (length W, m)
            = ?st\<lparr>rd_count := 1, rd_selectedcids := rd_selectedcids ?st @ [(length W, m)],
                  sdwriter_rd := sdwriter_rd ?st @ [m]\<rparr>"
      using c u False sel notin by (simp add: far_step_def Let_def)
    then show ?thesis
      unfolding far_loop_snoc using IH False by (simp add: enumerate_append_eq)
  qed
qed

lemma far_loop_later_unique:
  "later_unique E args (map energy_geom (sdwriter_rd (far_loop E args rdmols)))"
  using far_inv_loop [of E args rdmols] by (simp add: far_inv_def)

text \<open>
  X3. Running the post-rotation filter on the file it wrote accepts every conformer of that
  file again and writes the same file; when the first input was not empty and the
  pre-filter threshold is positive, both duplicate counts of the second run are zero.
\<close>

theorem far_loop_idempotent:
  "sdwriter_rd (far_loop E args (sdwriter_rd (far_loop E args rdmols)))
     = sdwriter_rd (far_loop E args rdmols)
   \<and> length (rd_selectedcids (far_loop E args (sdwriter_rd (far_loop E args rdmols))))
     = length (sdwriter_rd (far_loop E args rdmols))
   \<and> (rdmols \<noteq> [] \<and> 0 < initial_energy_threshold args \<longrightarrow>
        rd_dup_energy (far_loop E args (sdwriter_rd (far_loop E args rdmols))) = 0
        \<and> rd_dup_rms_eng (far_loop E args (sdwriter_rd (far_loop E args rdmols))) = 0)"
proof -
  let ?W = "sdwriter_rd (far_loop E args rdmols)"
  have ne: "rdmols \<noteq> [] \<longrightarrow> ?W \<noteq> []"
    using far_inv_loop [of E args rdmols] by (auto simp: far_inv_def)
  show ?thesis
    using far_rerun [OF far_loop_later_unique, of E args rdmols] ne by simp
qed

theorem far_loop_idempotent_witness:
  "sdwriter_rd (far_loop toy_engines toy_args
      (sdwriter_rd (far_loop toy_engines toy_args
         [\<lparr>sd_geom = 0, sd_energy = 0\<rparr>, \<lparr>sd_geom = 0, sd_energy = 1 / 100000\<rparr>,
          \<lparr>sd_geom = 10, sd_energy = 1\<rparr>])))
     = [\<lparr>sd_geom = 0, sd_energy = 0\<rparr>, \<lparr>sd_geom = 10, sd_energy = 1\<rparr>]
   \<and> rd_dup_energy (far_loop toy_engines toy_args
      (sdwriter_rd (far_loop toy_engines toy_args
         [\<lparr>sd_geom = 0, sd_energy = 0\<rparr>, \<lparr>sd_geom = 0, sd_energy = 1 / 100000\<rparr>,
          \<lparr>sd_geom = 10, sd_energy = 1\<rparr>]))) = 0
   \<and> rd_dup_rms_eng (far_loop toy_engines toy_args
      (sdwriter_rd (far_loop toy_engines toy_args
         [\<lparr>sd_geom = 0, sd_energy = 0\<rparr>, \<lparr>sd_geom = 0, sd_energy = 1 / 100000\<rparr>,
          \<lparr>sd_geom = 10, sd_energy = 1\<rparr>]))) = 0"
proof -
  let ?in = "[\<lparr>sd_geom = 0 :: int, sd_energy = 0\<rparr>, \<lparr>sd_geom = 0, sd_energy = 1 / 100000\<rparr>,
          \<lparr>sd_geom = 10, sd_energy = 1\<rparr>]"
  have w: "sdwriter_rd (far_loop toy_engines toy_args ?in)
             = [\<lparr>sd_geom = 0, sd_energy = 0\<rparr>, \<lparr>sd_geom = 10, sd_energy = 1\<rparr>]"
    by (simp add: pipeline_evals)
  have "0 < initial_energy_threshold toy_args" by (simp add: toy_args_def)
  then show ?thesis
    using far_loop_idempotent [of toy_engines toy_args ?in] unfolding w by simp
qed

lemma later_unique_pairs:
  assumes "later_unique E args xs" and "j < k" and "k < length xs"
  shows "\<not> \<bar>fst (xs ! k) - fst (xs ! j)\<bar> < initial_energy_threshold args
       \<and> \<not> (\<bar>fst (xs ! k) - fst (xs ! j)\<bar> < energy_threshold args
             \<and> get_conf_RMS E (snd (xs ! k)) (snd (xs ! j)) (heavyonly args)
                 < rms_threshold args)"
proof -
  have "k \<in> set [1 ..< length xs]" using assms(2,3) by simp
  then have "compare_accepted E args (fst (xs ! k)) (snd (xs ! k)) (take k xs) = Unique"
    using assms(1) unfolding later_unique_def list_all_iff by blast
  moreover have "xs ! j \<in> set (take k xs)"
    using assms(2,3) by (metis in_set_conv_nth length_take min.absorb2 nth_take order_less_imp_le)
  ultimately show ?thesis
    unfolding compare_accepted_Unique by (cases "xs ! j") auto
qed

text \<open>
  X1. In the file written by the post-rotation filter, no conformer is within the energy
  threshold and within the RMSD threshold of a conformer written before it (the RMSD taken
  as the filter takes it, the later conformer as the probe).
\<close>

theorem far_loop_no_duplicate_pair:
  assumes "j < k" and "k < length (sdwriter_rd (far_loop E args rdmols))"
  shows "\<not> (\<bar>sd_energy (sdwriter_rd (far_loop E args rdmols) ! k)
              - sd_energy (sdwriter_rd (far_loop E args rdmols) ! j)\<bar> < energy_threshold args
            \<and> get_conf_RMS E (sd_geom (sdwriter_rd (far_loop E args rdmols) ! k))
                 (sd_geom (sdwriter_rd (far_loop E args rdmols) ! j)) (heavyonly args)
               < rms_threshold args)"
  using later_unique_pairs [OF far_loop_later_unique, of j k E args rdmols] assms
  by (simp add: energy_geom_def)

theorem far_loop_no_duplicate_pair_witness:
  "sdwriter_rd (far_loop toy_engines toy_args
         [\<lparr>sd_geom = 0, sd_energy = 0\<rparr>, \<lparr>sd_geom = 0, sd_energy = 1 / 10\<rparr>,
          \<lparr>sd_geom = 10, sd_energy = 1 / 5\<rparr>])
     = [\<lparr>sd_geom = 0, sd_energy = 0\<rparr>, \<lparr>sd_geom = 10, sd_energy = 1 / 5\<rparr>]
   \<and> \<not> (\<bar>(1 / 5 :: real) - 0\<bar> < energy_threshold toy_args
         \<and> get_conf_RMS toy_engines 10 0 (heavyonly toy_args) < rms_threshold toy_args)"
proof -
  let ?in = "[\<lparr>sd_geom = 0 :: int, sd_energy = 0\<rparr>, \<lparr>sd_geom = 0, sd_energy = 1 / 10\<rparr>,
          \<lparr>sd_geom = 10, sd_energy = 1 / 5\<rparr>]"
  have w: "sdwriter_rd (far_loop toy_engines toy_args ?in)
             = [\<lparr>sd_geom = 0, sd_energy = 0\<rparr>, \<lparr>sd_geom = 10, sd_energy = 1 / 5\<rparr>]"
    by (simp add: pipeline_evals)
  show ?thesis
    using far_loop_no_duplicate_pair [of 0 1 toy_engines toy_args ?in] unfolding w by simp
qed

lemma mm_inv_body:
  assumes "mm_inv E args st"
  shows "mm_inv E args (mult_min_body E args st (mol, converged, energy))"
  using assms
  by (cases "compare_accepted E args energy mol (zip (c_energy st) (mm_outmols st))")
     (auto simp: mm_inv_def mult_min_body_def Let_def later_unique_snoc)

lemma mm_inv_loop:
  "mm_inv E args st0 \<Longrightarrow> mult_min_loop E args program inmols st0 = Inr st \<Longrightarrow> mm_inv E args st"
proof (induction inmols arbitrary: st0)
  case Nil
  then show ?case by simp
next
  case (Cons m inmols)
  show ?case
  proof (cases m)
    case None
    with Cons show ?thesis by simp
  next
    case (Some mol)
    with Cons.prems obtain r where
      l: "mult_min_loop E args program inmols (mult_min_body E args st0 r) = Inr st"
      by (auto split: sum.splits)
    obtain g c e where "r = (g, c, e)" by (cases r)
    then have "mm_inv E args (mult_min_body E args st0 r)"
      using mm_inv_body [OF Cons.prems(1)] by simp
    from Cons.IH [OF this l] show ?thesis .
  qed
qed

text \<open>
  X2. In the accepted set of a refinement pass that returned, no conformer is within the
  energy threshold and within the RMSD threshold of a conformer accepted before it.
\<close>

theorem mult_min_no_duplicate_pair:
  assumes "mult_min_loop E args program inmols mm_init = Inr st"
    and "j < k" and "k < length (mm_outmols st)"
  shows "\<not> (\<bar>c_energy st ! k - c_energy st ! j\<bar> < energy_threshold args
            \<and> get_conf_RMS E (mm_outmols st ! k) (mm_outmols st ! j) (heavyonly args)
               < rms_threshold args)"
proof -
  have "mm_inv E args mm_init" by (simp add: mm_inv_def)
  then have inv: "mm_inv E args st" using assms(1) by (rule mm_inv_loop)
  then have len: "length (c_energy st) = length (mm_outmols st)" by (simp add: mm_inv_def)
  show ?thesis
    using later_unique_pairs [of E args "zip (c_energy st) (mm_outmols st)" j k]
      inv assms(2,3) len
    by (simp add: mm_inv_def)
qed

theorem mult_min_no_duplicate_pair_witness:
  "\<exists>st. mult_min_loop toy_engines toy_args xtb
            [Some \<lparr>sd_geom = 0, sd_energy = 0\<rparr>, Some \<lparr>sd_geom = 0, sd_energy = 0\<rparr>,
             Some \<lparr>sd_geom = 10, sd_energy = 10\<rparr>] mm_init = Inr st
     \<and> mm_outmols st = [0, 10] \<and> c_energy st = [0, 10] \<and> n_dup_energy st = 1
     \<and> \<not> (\<bar>c_energy st ! 1 - c_energy st ! 0\<bar> < energy_threshold toy_args
           \<and> get_conf_RMS toy_engines (mm_outmols st ! 1) (mm_outmols st ! 0)
                (heavyonly toy_args) < rms_threshold toy_args)"
proof -
  let ?st = "\<lparr>globmin = Some 0, n_high = 0, n_dup_energy = 1, n_dup_rms_eng = 0,
       mm_outmols = [0 :: int, 10], c_converged = [0, 0], c_energy = [0, 10]\<rparr>"
  have l: "mult_min_loop toy_engines toy_args xtb
            [Some \<lparr>sd_geom = 0, sd_energy = 0\<rparr>, Some \<lparr>sd_geom = 0, sd_energy = 0\<rparr>,
             Some \<lparr>sd_geom = 10, sd_energy = 10\<rparr>] mm_init = Inr ?st"
    by (simp add: optimize_def mult_min_body_def toy_engines_def toy_args_def get_conf_RMS_def)
  show ?thesis
    using mult_min_no_duplicate_pair [OF l, of 0 1] l by simp
qed

subsection \<open>Counter conservation on a non-empty input\<close>

lemma minimize_loop_length:
  "minimize_loop E args template cids mol cenergy outmols = Inr (mol', cenergy', outmols')
   \<Longrightarrow> length cenergy' = length cenergy + length cids"
proof (induction cids arbitrary: mol cenergy outmols)
  case Nil
  then show ?case by simp
next
  case (Cons conf cids)
  then show ?case
    by (auto simp: Let_def split: if_splits prod.splits)
qed

lemma prefilter_step_count:
  assumes "count_inv pre st" and "x \<notin> set pre" and "0 < initial_energy_threshold args"
  shows "count_inv (pre @ [x]) (prefilter_step args cenergy st (length pre, x))"
proof (cases "pre = []")
  case True
  with assms(1) have "st = ([], - 1)" by (simp add: count_inv_def)
  then show ?thesis using True assms(3)
    by (simp add: count_inv_def prefilter_step_def Let_def)
next
  case False
  obtain sel k where st: "st = (sel, k)" by (cases st)
  from assms(1) False st have inv: "sel \<noteq> []" "set sel \<subseteq> set pre"
    "int (length pre) = int (length sel) + k"
    by (simp_all add: count_inv_def)
  then have "x \<notin> set sel" using assms(2) by blast
  then show ?thesis using False inv st
    by (auto simp: count_inv_def prefilter_step_def Let_def)
qed

lemma prefilter_fold_count:
  assumes "0 < initial_energy_threshold args"
  shows "count_inv pre st \<Longrightarrow> distinct (pre @ xs) \<Longrightarrow>
     count_inv (pre @ xs)
       (fold (\<lambda>ic st. prefilter_step args cenergy st ic) (enumerate (length pre) xs) st)"
proof (induction xs arbitrary: pre st)
  case Nil
  then show ?case by simp
next
  case (Cons x xs)
  have "x \<notin> set pre" using Cons.prems(2) by auto
  then have "count_inv (pre @ [x]) (prefilter_step args cenergy st (length pre, x))"
    using prefilter_step_count [OF Cons.prems(1) _ assms] by blast
  moreover have "distinct ((pre @ [x]) @ xs)" using Cons.prems(2) by simp
  ultimately show ?case using Cons.IH [of "pre @ [x]"] by simp
qed

lemma prefilter_count:
  assumes "0 < initial_energy_threshold args" and "distinct xs"
  shows "count_inv xs (prefilter args cenergy xs)"
  using prefilter_fold_count [OF assms(1), of "[]" "([], - 1)" xs cenergy] assms(2)
  by (simp add: prefilter_def count_inv_def)

lemma rms_filter_step_count:
  assumes "count_inv pre (sel, k)" and "x \<notin> set pre" and "0 < energy_threshold args"
    and "\<And>g. best_rms E (heavyonly args) g g < rms_threshold args"
  shows "count_inv (pre @ [x])
           (snd (rms_filter_step E args rotmatches cenergy (outmols, sel, k) (length pre, x)))"
proof (cases "pre = []")
  case True
  with assms(1) have "sel = []" "k = - 1" by (simp_all add: count_inv_def)
  then show ?thesis using True assms(3,4)
    by (simp add: count_inv_def rms_filter_step_def Let_def get_conf_RMS_def)
next
  case False
  from assms(1) False have inv: "sel \<noteq> []" "set sel \<subseteq> set pre"
    "int (length pre) = int (length sel) + k"
    by (simp_all add: count_inv_def)
  then have "x \<notin> set sel" using assms(2) by blast
  then show ?thesis using False inv
    by (auto simp: count_inv_def rms_filter_step_def Let_def)
qed

lemma rms_filter_fold_count:
  assumes "0 < energy_threshold args"
    and "\<And>g. best_rms E (heavyonly args) g g < rms_threshold args"
  shows "count_inv pre (snd st) \<Longrightarrow> distinct (pre @ xs) \<Longrightarrow>
     count_inv (pre @ xs)
       (snd (fold (\<lambda>ic st. rms_filter_step E args rotmatches cenergy st ic)
               (enumerate (length pre) xs) st))"
proof (induction xs arbitrary: pre st)
  case Nil
  then show ?case by simp
next
  case (Cons x xs)
  obtain outmols sel k where st: "st = (outmols, sel, k)" by (cases st)
  have "x \<notin> set pre" using Cons.prems(2) by auto
  then have "count_inv (pre @ [x])
     (snd (rms_filter_step E args rotmatches cenergy st (length pre, x)))"
    using rms_filter_step_count [OF _ _ assms, of pre sel k x rotmatches cenergy outmols]
      Cons.prems(1) st by simp
  moreover have "distinct ((pre @ [x]) @ xs)" using Cons.prems(2) by simp
  ultimately show ?case using Cons.IH [of "pre @ [x]"] by simp
qed

lemma rms_filter_count:
  assumes "0 < energy_threshold args"
    and "\<And>g. best_rms E (heavyonly args) g g < rms_threshold args"
    and "distinct xs"
  shows "count_inv xs (snd (rms_filter E args rotmatches cenergy outmols xs))"
  using rms_filter_fold_count [OF assms(1,2), of "[]" "(outmols, [], - 1)" xs rotmatches cenergy]
    assms(3)
  by (simp add: rms_filter_def count_inv_def)

lemma distinct_sortedcids [simp]: "distinct (sortedcids cenergy)"
  by (simp add: sortedcids_def)

lemma length_sortedcids [simp]: "length (sortedcids cenergy) = length cenergy"
  by (simp add: sortedcids_def)

lemma subseq_distinct: "subseq xs ys \<Longrightarrow> distinct ys \<Longrightarrow> distinct xs"
  by (auto simp: subseq_conv_nths)

text \<open>
  X4. When \<open>min_after_embed\<close> returns on a non-empty list of embedded conformers, with
  positive energy thresholds and an RMSD of every geometry to itself below the RMSD
  threshold, the number of embedded conformers is the sum of the recorded pre-filter
  duplicate count, the recorded geometry duplicate count and the recorded unique-conformer
  count.
\<close>

theorem counters_conserved:
  assumes ret: "min_after_embed E args template mol rotmatches dup_data sdwriter = Some (Inr r)"
    and ne: "mol \<noteq> []"
    and iet: "0 < initial_energy_threshold args"
    and et: "0 < energy_threshold args"
    and self: "\<And>g. best_rms E (heavyonly args) g g < rms_threshold args"
  shows "\<exists>eng_dup eng_rms_dup unique.
           RDKit_energy_duplicates (mae_row r) = Some eng_dup
         \<and> RDKit_RMSD_and_energy_duplicates (mae_row r) = Some eng_rms_dup
         \<and> RDKIT_Unique_conformers (mae_row r) = Some unique
         \<and> unique = int (length (mae_selectedcids r))
         \<and> int (length mol) = eng_dup + eng_rms_dup + unique"
proof -
  from ret obtain cenergy outmols si ed sc erd where
    f: "mae_filters E args template mol rotmatches = Inr (cenergy, outmols, (si, ed), (sc, erd))"
    by (auto simp: min_after_embed_def split: sum.splits)
  from f obtain mol' om where
    m: "minimize_loop E args template [0 ..< length mol] mol [] [] = Inr (mol', cenergy, om)"
    by (auto simp: mae_filters_def Let_def split: sum.splits prod.splits)
  have len: "length cenergy = length mol" using minimize_loop_length [OF m] by simp
  from f have p: "prefilter args cenergy (sortedcids cenergy) = (si, ed)"
    by (auto simp: mae_filters_def Let_def split: sum.splits prod.splits)
  from f obtain om' where q: "rms_filter E args rotmatches cenergy om' si = (outmols, sc, erd)"
    by (auto simp: mae_filters_def Let_def split: sum.splits prod.splits)
  have c1: "count_inv (sortedcids cenergy) (si, ed)"
    using prefilter_count [OF iet, of "sortedcids cenergy" cenergy] p by simp
  have sne: "sortedcids cenergy \<noteq> []" using len ne by (metis length_0_conv length_sortedcids)
  with c1 have a: "int (length mol) = int (length si) + ed" and sine: "si \<noteq> []"
    using len by (auto simp: count_inv_def)
  have "subseq si (sortedcids cenergy)" using prefilter_subseq [of args cenergy "sortedcids cenergy"] p
    by simp
  then have dsi: "distinct si" by (rule subseq_distinct) simp
  have c2: "count_inv si (sc, erd)"
    using rms_filter_count [OF et self dsi, of rotmatches cenergy om'] q by simp
  with sine have b: "int (length si) = int (length sc) + erd"
    by (auto simp: count_inv_def)
  from ret f have "RDKit_energy_duplicates (mae_row r) = Some ed
      \<and> RDKit_RMSD_and_energy_duplicates (mae_row r) = Some erd
      \<and> RDKIT_Unique_conformers (mae_row r) = Some (int (length sc))
      \<and> mae_selectedcids r = sc"
    by (auto simp: min_after_embed_def Let_def split: option.splits sum.splits prod.splits)
  then show ?thesis using a b by simp
qed

theorem counters_conserved_witness:
  "\<exists>r. min_after_embed toy_engines toy_args False [3, 5, 3] ([] :: unit list) empty_row []
          = Some (Inr r)
     \<and> RDKit_energy_duplicates (mae_row r) = Some 1
     \<and> RDKit_RMSD_and_energy_duplicates (mae_row r) = Some 0
     \<and> RDKIT_Unique_conformers (mae_row r) = Some 2
     \<and> int (length [3, 5, 3 :: int]) = 1 + 0 + 2"
proof -
  obtain r where r: "min_after_embed toy_engines toy_args False [3, 5, 3] ([] :: unit list)
      empty_row [] = Some (Inr r)"
    and v: "RDKit_energy_duplicates (mae_row r) = Some 1"
       "RDKit_RMSD_and_energy_duplicates (mae_row r) = Some 0"
       "RDKIT_Unique_conformers (mae_row r) = Some 2"
    by (simp add: pipeline_evals)
  have "0 < initial_energy_threshold toy_args" "0 < energy_threshold toy_args"
    "\<And>g. best_rms toy_engines (heavyonly toy_args) g g < rms_threshold toy_args"
    by (simp_all add: toy_args_def toy_engines_def)
  from counters_conserved [OF r _ this] v r show ?thesis by auto
qed

subsection \<open>What Stage B does guarantee\<close>

lemma stage_b_ok_update:
  assumes "stage_b_ok E args cenergy outmols sel" and "x \<notin> set sel"
  shows "stage_b_ok E args cenergy (outmols[x := v]) sel"
proof -
  have "(outmols[x := v]) ! (sel ! k) = outmols ! (sel ! k)" if "k < length sel" for k
    using that assms(2) by (metis nth_list_update_neq nth_mem)
  then show ?thesis using assms(1) by (simp add: stage_b_ok_def)
qed

lemma stage_b_ok_snoc:
  assumes "stage_b_ok E args cenergy outmols sel"
    and "\<forall>seen \<in> set sel.
        \<not> (\<bar>cenergy ! x - cenergy ! seen\<bar> < energy_threshold args
            \<and> get_conf_RMS E (confs (outmols ! x) ! seen) (confs (outmols ! x) ! x)
                 (heavyonly args) < rms_threshold args)"
  shows "stage_b_ok E args cenergy outmols (sel @ [x])"
  unfolding stage_b_ok_def
proof (intro allI impI)
  fix k j
  assume k: "k < length (sel @ [x])" and j: "j < k"
  show "\<not> (\<bar>cenergy ! ((sel @ [x]) ! k) - cenergy ! ((sel @ [x]) ! j)\<bar> < energy_threshold args
            \<and> get_conf_RMS E (confs (outmols ! ((sel @ [x]) ! k)) ! ((sel @ [x]) ! j))
                 (confs (outmols ! ((sel @ [x]) ! k)) ! ((sel @ [x]) ! k)) (heavyonly args)
               < rms_threshold args)"
  proof (cases "k < length sel")
    case True
    then show ?thesis using assms(1) j by (simp add: stage_b_ok_def nth_append)
  next
    case False
    then have "k = length sel" using k by simp
    then show ?thesis using assms(2) j by (simp add: nth_append)
  qed
qed

lemma rms_filter_step_ok:
  assumes "stage_b_ok E args cenergy outmols sel" and "x \<notin> set sel" and "i = 0 \<longrightarrow> sel = []"
  shows "stage_b_ok E args cenergy
           (fst (rms_filter_step E args rotmatches cenergy (outmols, sel, k) (i, x)))
           (fst (snd (rms_filter_step E args rotmatches cenergy (outmols, sel, k) (i, x))))"
proof -
  let ?om = "outmols[x := (outmols ! x)\<lparr>confs :=
              (confs (outmols ! x))[x :=
                 fold (\<lambda>m g. set_dihedral_deg E g m 180) rotmatches
                   (confs (outmols ! x) ! x)]\<rparr>]"
  have ok: "stage_b_ok E args cenergy ?om sel"
    using stage_b_ok_update [OF assms(1,2)] .
  show ?thesis
  proof (cases "i = 0")
    case True
    with assms(3) have "sel = []" by simp
    then show ?thesis using True
      by (simp add: rms_filter_step_def Let_def stage_b_ok_def)
  next
    case False
    show ?thesis
      using False ok stage_b_ok_snoc [OF ok, of x]
      by (auto simp: rms_filter_step_def Let_def list_ex_iff)
  qed
qed

lemma rms_filter_fold_ok:
  "stage_b_ok E args cenergy (fst st) (fst (snd st)) \<Longrightarrow> set (fst (snd st)) \<subseteq> set pre
   \<Longrightarrow> distinct (pre @ xs) \<Longrightarrow>
   stage_b_ok E args cenergy
     (fst (fold (\<lambda>ic st. rms_filter_step E args rotmatches cenergy st ic)
             (enumerate (length pre) xs) st))
     (fst (snd (fold (\<lambda>ic st. rms_filter_step E args rotmatches cenergy st ic)
             (enumerate (length pre) xs) st)))"
proof (induction xs arbitrary: pre st)
  case Nil
  then show ?case by simp
next
  case (Cons x xs)
  obtain outmols sel k where st: "st = (outmols, sel, k)" by (cases st)
  let ?st' = "rms_filter_step E args rotmatches cenergy st (length pre, x)"
  have xs: "x \<notin> set sel" using Cons.prems(2,3) st by auto
  have z: "length pre = 0 \<longrightarrow> sel = []" using Cons.prems(2) st by auto
  have 1: "stage_b_ok E args cenergy (fst ?st') (fst (snd ?st'))"
    using rms_filter_step_ok [OF _ xs z, of E args cenergy outmols rotmatches k]
      Cons.prems(1) st by simp
  have 2: "set (fst (snd ?st')) \<subseteq> set (pre @ [x])"
    using rms_filter_step_cases [of E args rotmatches cenergy outmols sel k "length pre" x]
      Cons.prems(2) st by auto
  have 3: "distinct ((pre @ [x]) @ xs)" using Cons.prems(3) by simp
  from Cons.IH [OF 1 2 3] show ?case by simp
qed

lemma rms_filter_ok:
  assumes "distinct xs"
  shows "stage_b_ok E args cenergy (fst (rms_filter E args rotmatches cenergy outmols xs))
           (fst (snd (rms_filter E args rotmatches cenergy outmols xs)))"
  using rms_filter_fold_ok [of E args cenergy "(outmols, [], - 1)" "[]" xs rotmatches] assms
  by (simp add: rms_filter_def stage_b_ok_def)

text \<open>
  X5. After Stage B of \<open>min_after_embed\<close>, no selected conformer \<open>c\<close> is within the energy
  threshold of a conformer \<open>s\<close> selected before it and, at the same time, within the RMSD
  threshold of the geometry that the copy \<^verbatim>\<open>outmols[c]\<close> holds for \<open>s\<close>.
\<close>

theorem stage_b_no_duplicate_pair_in_copy:
  assumes "mae_filters E args template mol rotmatches
             = Inr (cenergy, outmols, (si, ed), (sc, erd))"
    and "j < k" and "k < length sc"
  shows "\<not> (\<bar>cenergy ! (sc ! k) - cenergy ! (sc ! j)\<bar> < energy_threshold args
            \<and> get_conf_RMS E (confs (outmols ! (sc ! k)) ! (sc ! j))
                 (confs (outmols ! (sc ! k)) ! (sc ! k)) (heavyonly args)
               < rms_threshold args)"
proof -
  have p: "prefilter args cenergy (sortedcids cenergy) = (si, ed)"
    using mae_filters_Inr(1) [OF assms(1)] .
  obtain om where q: "rms_filter E args rotmatches cenergy om si = (outmols, sc, erd)"
    using mae_filters_Inr(2) [OF assms(1)] by blast
  have "subseq si (sortedcids cenergy)"
    using prefilter_subseq [of args cenergy "sortedcids cenergy"] p by simp
  then have "distinct si" by (rule subseq_distinct) simp
  then have "stage_b_ok E args cenergy outmols sc"
    using rms_filter_ok [of si E args cenergy rotmatches om] q by simp
  then show ?thesis using assms(2,3) by (simp add: stage_b_ok_def)
qed

theorem stage_b_no_duplicate_pair_in_copy_witness:
  "\<exists>outmols. mae_filters stale_engines toy_args False [10, 20] ([] :: unit list)
        = Inr ([1 / 10, 0], outmols, ([1, 0], 0), ([1, 0], 0))
     \<and> confs (outmols ! 0) = [0, 20]
     \<and> \<not> (\<bar>[1 / 10, 0 :: real] ! 0 - [1 / 10, 0] ! 1\<bar> < energy_threshold toy_args
           \<and> get_conf_RMS stale_engines (confs (outmols ! 0) ! 1) (confs (outmols ! 0) ! 0)
                (heavyonly toy_args) < rms_threshold toy_args)"
proof -
  let ?om = "[\<lparr>confs = [0, 20 :: int], Energy = 1 / 10\<rparr>, \<lparr>confs = [0, 0], Energy = 0\<rparr>]"
  have f: "mae_filters stale_engines toy_args False [10, 20] ([] :: unit list)
        = Inr ([1 / 10, 0], ?om, ([1, 0], 0), ([1, 0], 0))"
    by (simp add: pipeline_evals)
  show ?thesis
    using stage_b_no_duplicate_pair_in_copy [OF f, of 0 1] f by simp
qed

end
